theory Spec2Isabelle
  imports Main
begin

section \<open>Python values\<close>

text \<open>
  A Python \<open>bytes\<close> object is a list of 8-bit characters (\<^typ>\<open>char\<close> has exactly the
  values 0..255); a Python \<open>str\<close> is a list of Unicode code points.  The transcript
  contains emoji, which do not fit into \<^typ>\<open>char\<close>, so \<open>str\<close> is not \<^typ>\<open>string\<close>.
\<close>

type_synonym bytes = "char list"
type_synonym pystr = "int list"

definition str_of :: "string \<Rightarrow> pystr" where
  "str_of s = map of_char s"

text \<open>
  The exceptions that leave \<open>preprocess_chat\<close>.  \<open>re_error msg pos\<close> is Python's
  \<open>re.error\<close> with its message and position.  \<open>OutsideModel\<close> is not a Python exception:
  it marks regular-expression syntax that the embedding of the \<open>re\<close> module below does
  not cover; none of the patterns of the program reaches it.
\<close>

datatype exn = re_error string nat | ValueError | OutsideModel

section \<open>Decoding the upload\<close>

text \<open>
  \<open>bytes.decode('utf-8')\<close>, strict: no overlong forms, no surrogates, nothing above
  U+10FFFF.  \<open>None\<close> stands for \<open>UnicodeDecodeError\<close>.
\<close>

definition is_cont :: "int \<Rightarrow> bool" where
  "is_cont b \<longleftrightarrow> 128 \<le> b \<and> b < 192"

fun decode_utf8 :: "int list \<Rightarrow> pystr option" where
  "decode_utf8 [] = Some []"
| "decode_utf8 (b0 # bs) =
     (if b0 < 128 then map_option ((#) b0) (decode_utf8 bs)
      else if 194 \<le> b0 \<and> b0 < 224 then
        (case bs of
           b1 # r \<Rightarrow>
             if is_cont b1
             then map_option ((#) ((b0 - 192) * 64 + (b1 - 128))) (decode_utf8 r)
             else None
         | _ \<Rightarrow> None)
      else if 224 \<le> b0 \<and> b0 < 240 then
        (case bs of
           b1 # b2 # r \<Rightarrow>
             if is_cont b1 \<and> is_cont b2
                \<and> (b0 = 224 \<longrightarrow> 160 \<le> b1) \<and> (b0 = 237 \<longrightarrow> b1 < 160)
             then map_option ((#) ((b0 - 224) * 4096 + (b1 - 128) * 64 + (b2 - 128)))
                    (decode_utf8 r)
             else None
         | _ \<Rightarrow> None)
      else if 240 \<le> b0 \<and> b0 < 245 then
        (case bs of
           b1 # b2 # b3 # r \<Rightarrow>
             if is_cont b1 \<and> is_cont b2 \<and> is_cont b3
                \<and> (b0 = 240 \<longrightarrow> 144 \<le> b1) \<and> (b0 = 244 \<longrightarrow> b1 < 144)
             then map_option
                    ((#) ((b0 - 240) * 262144 + (b1 - 128) * 4096 + (b2 - 128) * 64 + (b3 - 128)))
                    (decode_utf8 r)
             else None
         | _ \<Rightarrow> None)
      else None)"

definition bytes_decode_utf8 :: "bytes \<Rightarrow> pystr option" where
  "bytes_decode_utf8 bs = decode_utf8 (map of_char bs)"

text \<open>\<open>bytes.decode('utf-8-sig')\<close>: UTF-8 after an optional byte-order mark EF BB BF.\<close>

definition bytes_decode_utf8_sig :: "bytes \<Rightarrow> pystr option" where
  "bytes_decode_utf8_sig bs =
     (if take 3 (map of_char bs) = [239, 187, 191 :: int]
      then decode_utf8 (drop 3 (map of_char bs))
      else decode_utf8 (map of_char bs))"

text \<open>\<open>bytes.decode('latin-1')\<close>: every byte is its own code point.\<close>

definition bytes_decode_latin1 :: "bytes \<Rightarrow> pystr option" where
  "bytes_decode_latin1 bs = Some (map of_char bs)"

text \<open>
  The three nested \<open>try\<close> blocks of \<open>preprocess_chat\<close>; \<open>None\<close> is the innermost
  \<open>except: return None\<close>.
\<close>

definition read_content :: "bytes \<Rightarrow> pystr option" where
  "read_content bs =
     (case bytes_decode_utf8 bs of
        Some content \<Rightarrow> Some content
      | None \<Rightarrow>
          (case bytes_decode_utf8_sig bs of
             Some content \<Rightarrow> Some content
           | None \<Rightarrow>
               (case bytes_decode_latin1 bs of
                  Some content \<Rightarrow> Some content
                | None \<Rightarrow> None)))"

section \<open>The \<open>re\<close> module\<close>

subsection \<open>Character classes\<close>

text \<open>
  \<open>\s\<close> on a \<open>str\<close> pattern is \<open>str.isspace\<close>; the same set is what \<open>str.strip()\<close>
  removes.
\<close>

definition unicode_space :: "int \<Rightarrow> bool" where
  "unicode_space c \<longleftrightarrow>
     (9 \<le> c \<and> c \<le> 13) \<or> (28 \<le> c \<and> c \<le> 32) \<or> c = 133 \<or> c = 160 \<or> c = 5760
     \<or> (8192 \<le> c \<and> c \<le> 8202) \<or> c = 8232 \<or> c = 8233 \<or> c = 8239 \<or> c = 8287
     \<or> c = 12288"

text \<open>
  With \<open>re.IGNORECASE\<close> a literal letter of the pattern matches a character of the text
  whose simple lower-case form is the lower-cased letter, or one of the extra
  equivalents that \<open>re\<close> adds (dotless i for i, long s for s).  For the ASCII letters
  that gives the two cases of the letter and, beyond ASCII, U+0130 and U+0131 for i,
  U+017F for s and U+212A for k.  Pattern characters without case match only themselves.
\<close>

definition ascii_lower :: "int \<Rightarrow> int" where
  "ascii_lower c = (if 65 \<le> c \<and> c \<le> 90 then c + 32 else c)"

definition ignorecase_eq :: "int \<Rightarrow> int \<Rightarrow> bool" where
  "ignorecase_eq p c \<longleftrightarrow>
     ascii_lower c = ascii_lower p
     \<or> (ascii_lower p = 105 \<and> (c = 304 \<or> c = 305))
     \<or> (ascii_lower p = 115 \<and> c = 383)
     \<or> (ascii_lower p = 107 \<and> c = 8490)"

datatype setitem = SChar int | SDigit | SSpace

datatype atom =
    Lit int
  | LitIgn int
  | AnyChar
  | AnyButNewline
  | Digit
  | Space
  | OneOf "setitem list"
  | NoneOf "setitem list"

text \<open>
  \<open>\d\<close> on a \<open>str\<close> pattern is the set of Unicode decimal digits of the interpreter's
  Unicode database.  That table is not part of the program: it is the parameter \<open>D\<close>.
\<close>

fun item_matches :: "(int \<Rightarrow> bool) \<Rightarrow> setitem \<Rightarrow> int \<Rightarrow> bool" where
  "item_matches D (SChar n) c = (c = n)"
| "item_matches D SDigit c = D c"
| "item_matches D SSpace c = unicode_space c"

fun atom_matches :: "(int \<Rightarrow> bool) \<Rightarrow> atom \<Rightarrow> int \<Rightarrow> bool" where
  "atom_matches D (Lit n) c = (c = n)"
| "atom_matches D (LitIgn n) c = ignorecase_eq n c"
| "atom_matches D AnyChar c = True"
| "atom_matches D AnyButNewline c = (c \<noteq> 10)"
| "atom_matches D Digit c = D c"
| "atom_matches D Space c = unicode_space c"
| "atom_matches D (OneOf items) c = list_ex (\<lambda>i. item_matches D i c) items"
| "atom_matches D (NoneOf items) c = (\<not> list_ex (\<lambda>i. item_matches D i c) items)"

subsection \<open>Patterns\<close>

datatype regex =
    Atom atom
  | Empty
  | Cat regex regex
  | Alt regex regex
  | Repeat nat nat regex
  | Star atom
  | LazyStar atom
  | Group nat regex
  | Lookahead regex
  | EndAnchor

datatype flag = DOTALL | IGNORECASE

datatype gkind = TopLevel | Capturing nat | NonCapturing | LookaheadGroup

datatype quant = QOpt | QStar | QPlus | QLazyStar | QCount nat nat

datatype token =
    TAtom atom
  | TOpen gkind
  | TClose
  | TBar
  | TDollar
  | TQuant quant
  | TBad

subsection \<open>Reading a pattern\<close>

abbreviation BSL :: char where
  "BSL \<equiv> CHR 0x5C"

definition is_digit_char :: "char \<Rightarrow> bool" where
  "is_digit_char c \<longleftrightarrow> 48 \<le> (of_char c :: int) \<and> (of_char c :: int) \<le> 57"

definition is_alnum_char :: "char \<Rightarrow> bool" where
  "is_alnum_char c \<longleftrightarrow>
     is_digit_char c
     \<or> (65 \<le> (of_char c :: int) \<and> (of_char c :: int) \<le> 90)
     \<or> (97 \<le> (of_char c :: int) \<and> (of_char c :: int) \<le> 122)"

definition nat_of_digits :: "string \<Rightarrow> nat" where
  "nat_of_digits ds = foldl (\<lambda>n d. 10 * n + (of_char d - 48)) 0 ds"

text \<open>A literal character of the pattern, under the flags of the call.\<close>

definition literal :: "flag list \<Rightarrow> char \<Rightarrow> token" where
  "literal flags c =
     (if IGNORECASE \<in> set flags
      then (if (of_char c :: int) < 128 then TAtom (LitIgn (ascii_lower (of_char c))) else TBad)
      else TAtom (Lit (of_char c)))"

text \<open>An escape \<open>\e\<close> outside a character set.\<close>

definition escape :: "flag list \<Rightarrow> char \<Rightarrow> token" where
  "escape flags e =
     (if e = CHR ''d'' then TAtom Digit
      else if e = CHR ''s'' then TAtom Space
      else if e = CHR ''n'' then TAtom (Lit 10)
      else if is_alnum_char e then TBad
      else literal flags e)"

text \<open>
  The body of a character set \<open>[...]\<close>: single characters and the escapes \<open>\d\<close> and
  \<open>\s\<close>.  Ranges are not covered.
\<close>

fun set_items :: "string \<Rightarrow> setitem list option" where
  "set_items [] = Some []"
| "set_items [c] =
     (if c = BSL \<or> c = CHR ''-'' then None else Some [SChar (of_char c)])"
| "set_items (c # e # cs) =
     (if c = BSL then
        (if e = CHR ''d'' then map_option ((#) SDigit) (set_items cs)
         else if e = CHR ''s'' then map_option ((#) SSpace) (set_items cs)
         else None)
      else if c = CHR ''-'' \<or> e = CHR ''-'' then None
      else map_option ((#) (SChar (of_char c))) (set_items (e # cs)))"

definition charset :: "flag list \<Rightarrow> string \<Rightarrow> token" where
  "charset flags body =
     (if IGNORECASE \<in> set flags \<or> body = [] then TBad
      else if hd body = CHR ''^'' then
        (case set_items (tl body) of
           Some (i # items) \<Rightarrow> TAtom (NoneOf (i # items))
         | _ \<Rightarrow> TBad)
      else
        (case set_items body of
           Some items \<Rightarrow> TAtom (OneOf items)
         | None \<Rightarrow> TBad))"

text \<open>The body of a counted repetition \<open>{n}\<close> or \<open>{m,n}\<close>.\<close>

definition counted :: "string \<Rightarrow> token" where
  "counted body =
     (let lo = takeWhile is_digit_char body; r = dropWhile is_digit_char body in
      if lo = [] then TBad
      else if r = [] then TQuant (QCount (nat_of_digits lo) (nat_of_digits lo))
      else if hd r = CHR '','' \<and> tl r \<noteq> [] \<and> list_all is_digit_char (tl r)
        then TQuant (QCount (nat_of_digits lo) (nat_of_digits (tl r)))
      else TBad)"

text \<open>
  The lexer: the tokens of a pattern, each with the offset at which it starts.  After a
  \<open>TBad\<close> nothing more is read.
\<close>

fun lex :: "flag list \<Rightarrow> nat \<Rightarrow> string \<Rightarrow> (nat \<times> token) list" where
  "lex flags p [] = []"
| "lex flags p (c # cs) =
     (if c = BSL then
        (case cs of
           [] \<Rightarrow> [(p, TBad)]
         | e # r \<Rightarrow> (p, escape flags e) # lex flags (p + 2) r)
      else if c = CHR ''('' then
        (if take 2 cs = ''?:'' then (p, TOpen NonCapturing) # lex flags (p + 3) (drop 2 cs)
         else if take 2 cs = ''?='' then (p, TOpen LookaheadGroup) # lex flags (p + 3) (drop 2 cs)
         else if take 1 cs = ''?'' then [(p, TBad)]
         else (p, TOpen (Capturing 0)) # lex flags (p + 1) cs)
      else if c = CHR '')'' then (p, TClose) # lex flags (p + 1) cs
      else if c = CHR ''|'' then (p, TBar) # lex flags (p + 1) cs
      else if c = CHR ''$'' then (p, TDollar) # lex flags (p + 1) cs
      else if c = CHR ''.'' then
        (p, TAtom (if DOTALL \<in> set flags then AnyChar else AnyButNewline)) # lex flags (p + 1) cs
      else if c = CHR ''?'' then
        (if take 1 cs = ''?'' then [(p, TBad)]
         else (p, TQuant QOpt) # lex flags (p + 1) cs)
      else if c = CHR ''*'' then
        (if take 1 cs = ''?'' then (p, TQuant QLazyStar) # lex flags (p + 2) (drop 1 cs)
         else (p, TQuant QStar) # lex flags (p + 1) cs)
      else if c = CHR ''+'' then
        (if take 1 cs = ''?'' then [(p, TBad)]
         else (p, TQuant QPlus) # lex flags (p + 1) cs)
      else if c = CHR ''{'' then
        (let body = takeWhile (\<lambda>x. x \<noteq> CHR ''}'') cs;
             r = drop (length body + 1) cs in
         if length body < length cs \<and> take 1 r \<noteq> ''?''
         then (p, counted body) # lex flags (p + length body + 2) r
         else [(p, TBad)])
      else if c = CHR ''['' then
        (let body = takeWhile (\<lambda>x. x \<noteq> CHR '']'') cs;
             r = drop (length body + 1) cs in
         if length body < length cs
         then (p, charset flags body) # lex flags (p + length body + 2) r
         else [(p, TBad)])
      else if c = CHR ''^'' \<or> c = CHR '']'' \<or> c = CHR ''}'' then [(p, TBad)]
      else (p, literal flags c) # lex flags (p + 1) cs)"

subsection \<open>Parsing a pattern\<close>

text \<open>
  The parser keeps a stack of open groups.  A frame holds the kind of the group, the
  offset of its opening parenthesis, the alternatives finished so far, the items of the
  current alternative, and what the last item was (for the errors of a quantifier).
\<close>

datatype last_item = NoItem | Plain | Repeated | Assertion | Anchor

datatype frame = Frame gkind nat "regex list" "regex list" last_item

fun seq_of :: "regex list \<Rightarrow> regex" where
  "seq_of [] = Empty"
| "seq_of [r] = r"
| "seq_of (r # rs) = Cat r (seq_of rs)"

fun alt_of :: "regex list \<Rightarrow> regex" where
  "alt_of [] = Empty"
| "alt_of [r] = r"
| "alt_of (r # rs) = Alt r (alt_of rs)"

fun close_group :: "gkind \<Rightarrow> regex \<Rightarrow> regex" where
  "close_group TopLevel r = r"
| "close_group (Capturing k) r = Group k r"
| "close_group NonCapturing r = r"
| "close_group LookaheadGroup r = Lookahead r"

fun frame_kind :: "frame \<Rightarrow> gkind" where
  "frame_kind (Frame k opened alts items l) = k"

text \<open>
  A quantifier on the item before it.  The unbounded ones are covered on a single
  character class only.
\<close>

fun apply_quant :: "nat \<Rightarrow> quant \<Rightarrow> regex \<Rightarrow> exn + regex" where
  "apply_quant p QOpt r = Inr (Repeat 0 1 r)"
| "apply_quant p (QCount m n) r =
     (if m \<le> n then Inr (Repeat m n r)
      else Inl (re_error ''min repeat greater than max repeat'' p))"
| "apply_quant p QStar (Atom a) = Inr (Star a)"
| "apply_quant p QPlus (Atom a) = Inr (Cat (Atom a) (Star a))"
| "apply_quant p QLazyStar (Atom a) = Inr (LazyStar a)"
| "apply_quant p q r = Inl OutsideModel"

fun parse :: "frame list \<Rightarrow> nat \<Rightarrow> (nat \<times> token) list \<Rightarrow> exn + (regex \<times> nat)" where
  "parse [] g toks = Inl OutsideModel"
| "parse (Frame k opened alts items l # stack) g [] =
     (if stack = [] then Inr (alt_of (alts @ [seq_of items]), g)
      else Inl (re_error ''missing ), unterminated subpattern'' opened))"
| "parse (Frame k opened alts items l # stack) g ((p, t) # toks) =
     (case t of
        TAtom a \<Rightarrow> parse (Frame k opened alts (items @ [Atom a]) Plain # stack) g toks
      | TDollar \<Rightarrow> parse (Frame k opened alts (items @ [EndAnchor]) Anchor # stack) g toks
      | TBar \<Rightarrow> parse (Frame k opened (alts @ [seq_of items]) [] NoItem # stack) g toks
      | TOpen k' \<Rightarrow>
          (case k' of
             Capturing _ \<Rightarrow>
               if LookaheadGroup \<in> set (map frame_kind (Frame k opened alts items l # stack))
               then Inl OutsideModel
               else parse (Frame (Capturing (Suc g)) p [] [] NoItem
                           # Frame k opened alts items l # stack) (Suc g) toks
           | _ \<Rightarrow> parse (Frame k' p [] [] NoItem # Frame k opened alts items l # stack) g toks)
      | TClose \<Rightarrow>
          (case stack of
             [] \<Rightarrow> Inl (re_error ''unbalanced parenthesis'' p)
           | Frame k2 opened2 alts2 items2 l2 # stack' \<Rightarrow>
               parse (Frame k2 opened2 alts2
                        (items2 @ [close_group k (alt_of (alts @ [seq_of items]))])
                        (if k = LookaheadGroup then Assertion else Plain) # stack') g toks)
      | TQuant q \<Rightarrow>
          (case l of
             Plain \<Rightarrow>
               (case apply_quant p q (last items) of
                  Inl e \<Rightarrow> Inl e
                | Inr r \<Rightarrow> parse (Frame k opened alts (butlast items @ [r]) Repeated # stack) g toks)
           | Repeated \<Rightarrow> Inl (re_error ''multiple repeat'' p)
           | Assertion \<Rightarrow> Inl OutsideModel
           | _ \<Rightarrow> Inl (re_error ''nothing to repeat'' p))
      | TBad \<Rightarrow> Inl OutsideModel)"

text \<open>\<open>re.compile(pattern, flags)\<close>: the pattern and its number of groups.\<close>

definition re_compile :: "flag list \<Rightarrow> string \<Rightarrow> exn + (regex \<times> nat)" where
  "re_compile flags pattern = parse [Frame TopLevel 0 [] [] NoItem] 0 (lex flags 0 pattern)"

subsection \<open>Matching\<close>

text \<open>
  The matcher backtracks.  \<open>rmatch D r (caps, s)\<close> lists every way in which \<open>r\<close>
  matches a prefix of \<open>s\<close>, in the order in which the engine tries them: the first
  element is the match it reports.  A state is the groups captured so far (the latest
  first) and the text that is left.
\<close>

type_synonym mstate = "(nat \<times> pystr) list \<times> pystr"

fun greedy_star :: "(int \<Rightarrow> bool) \<Rightarrow> (nat \<times> pystr) list \<Rightarrow> pystr \<Rightarrow> mstate list" where
  "greedy_star P caps [] = [(caps, [])]"
| "greedy_star P caps (x # xs) =
     (if P x then greedy_star P caps xs else []) @ [(caps, x # xs)]"

fun lazy_star :: "(int \<Rightarrow> bool) \<Rightarrow> (nat \<times> pystr) list \<Rightarrow> pystr \<Rightarrow> mstate list" where
  "lazy_star P caps [] = [(caps, [])]"
| "lazy_star P caps (x # xs) =
     (caps, x # xs) # (if P x then lazy_star P caps xs else [])"

fun rep_greedy :: "(mstate \<Rightarrow> mstate list) \<Rightarrow> nat \<Rightarrow> nat \<Rightarrow> mstate \<Rightarrow> mstate list" where
  "rep_greedy f 0 0 st = [st]"
| "rep_greedy f 0 (Suc n) st = concat (map (rep_greedy f 0 n) (f st)) @ [st]"
| "rep_greedy f (Suc m) 0 st = []"
| "rep_greedy f (Suc m) (Suc n) st = concat (map (rep_greedy f m n) (f st))"

definition capture :: "nat \<Rightarrow> pystr \<Rightarrow> mstate \<Rightarrow> mstate" where
  "capture k s st = ((k, take (length s - length (snd st)) s) # fst st, snd st)"

primrec rmatch :: "(int \<Rightarrow> bool) \<Rightarrow> regex \<Rightarrow> mstate \<Rightarrow> mstate list" where
  "rmatch D (Atom a) st =
     (case snd st of
        [] \<Rightarrow> []
      | x # xs \<Rightarrow> if atom_matches D a x then [(fst st, xs)] else [])"
| "rmatch D Empty st = [st]"
| "rmatch D (Cat a b) st = concat (map (rmatch D b) (rmatch D a st))"
| "rmatch D (Alt a b) st = rmatch D a st @ rmatch D b st"
| "rmatch D (Repeat m n r) st = rep_greedy (rmatch D r) m n st"
| "rmatch D (Star a) st = greedy_star (atom_matches D a) (fst st) (snd st)"
| "rmatch D (LazyStar a) st = lazy_star (atom_matches D a) (fst st) (snd st)"
| "rmatch D (Group k r) st = map (capture k (snd st)) (rmatch D r st)"
| "rmatch D (Lookahead r) st = (if rmatch D r st = [] then [] else [st])"
| "rmatch D EndAnchor st = (if snd st = [] \<or> snd st = [10] then [st] else [])"

text \<open>The text of group \<open>k\<close> of a match; a group that took no part is the empty string.\<close>

definition group_text :: "(nat \<times> pystr) list \<Rightarrow> nat \<Rightarrow> pystr" where
  "group_text caps k = (case map_of caps k of None \<Rightarrow> [] | Some t \<Rightarrow> t)"

text \<open>
  What \<open>findall\<close> appends for one match: the whole match when the pattern has no
  group, the texts of the groups otherwise.
\<close>

definition findall_item :: "nat \<Rightarrow> pystr \<Rightarrow> mstate \<Rightarrow> pystr list" where
  "findall_item g s st =
     (if g = 0 then [take (length s - length (snd st)) s]
      else map (group_text (fst st)) [1..<Suc g])"

text \<open>
  The scan of \<open>findall\<close>: at each position the first match, then on from its end; one
  position further where nothing matches.  After an empty match the engine has to
  advance: at the same position only a non-empty match counts.
\<close>

function scan_all :: "(int \<Rightarrow> bool) \<Rightarrow> regex \<Rightarrow> nat \<Rightarrow> bool \<Rightarrow> pystr \<Rightarrow> pystr list list" where
  "scan_all D r g must_advance s =
     (case filter (\<lambda>st. \<not> must_advance \<or> length (snd st) < length s) (rmatch D r ([], s)) of
        [] \<Rightarrow> (case s of [] \<Rightarrow> [] | x # xs \<Rightarrow> scan_all D r g False xs)
      | st # _ \<Rightarrow>
          findall_item g s st #
            (if length (snd st) < length s then scan_all D r g False (snd st)
             else if must_advance then []
             else scan_all D r g True s))"
  by pat_completeness auto
termination
  by (relation "measures [\<lambda>(D, r, g, m, s). length s, \<lambda>(D, r, g, m, s). if m then 0 else 1]") auto

declare scan_all.simps [simp del]

text \<open>The scan of \<open>search\<close>: is there a position at which the pattern matches?\<close>

fun scan_any :: "(int \<Rightarrow> bool) \<Rightarrow> regex \<Rightarrow> pystr \<Rightarrow> bool" where
  "scan_any D r [] = (rmatch D r ([], []) \<noteq> [])"
| "scan_any D r (x # xs) = (rmatch D r ([], x # xs) \<noteq> [] \<or> scan_any D r xs)"

text \<open>\<open>re.findall(pattern, string, flags)\<close>.\<close>

definition re_findall :: "(int \<Rightarrow> bool) \<Rightarrow> string \<Rightarrow> pystr \<Rightarrow> flag list \<Rightarrow> exn + pystr list list" where
  "re_findall D pattern string flags =
     (case re_compile flags pattern of
        Inl e \<Rightarrow> Inl e
      | Inr (r, g) \<Rightarrow> Inr (scan_all D r g False string))"

text \<open>\<open>re.compile(pattern, flags).search(string) is not None\<close>.\<close>

definition re_contains :: "(int \<Rightarrow> bool) \<Rightarrow> string \<Rightarrow> flag list \<Rightarrow> pystr \<Rightarrow> exn + bool" where
  "re_contains D pattern flags string =
     (case re_compile flags pattern of
        Inl e \<Rightarrow> Inl e
      | Inr (r, g) \<Rightarrow> Inr (scan_any D r string))"

section \<open>The patterns of \<open>preprocess_chat\<close>\<close>

text \<open>
  The raw string literals of the source, character by character; \<^term>\<open>BSL\<close> is the
  backslash, which cannot be written inside a string literal here.  The primary pattern
  (timestamps with an AM/PM marker):
\<close>

definition pattern :: string where
  "pattern =
     ''('' @ BSL # ''d{1,2}/'' @ BSL # ''d{1,2}/'' @ BSL # ''d{2,4},'' @ BSL # ''s'' @ BSL # ''d{1,2}:''
     @ BSL # ''d{2}(?::'' @ BSL # ''d{2})?'' @ BSL # ''s[APap][Mm])'' @ BSL # ''s-'' @ BSL # ''s(.*?):''
     @ BSL # ''s(.*?)(?='' @ BSL # ''n'' @ BSL # ''d{1,2}/'' @ BSL # ''d{1,2}/'' @ BSL # ''d{2,4},''
     @ BSL # ''s'' @ BSL # ''d{1,2}:'' @ BSL # ''d{2}(?::'' @ BSL # ''d{2})?'' @ BSL # ''s[APap][Mm]''
     @ BSL # ''s-'' @ BSL # ''s|$)''"

text \<open>The alternative pattern (timestamps without AM/PM):\<close>

definition alternative_pattern :: string where
  "alternative_pattern =
     ''('' @ BSL # ''d{1,2}/'' @ BSL # ''d{1,2}/'' @ BSL # ''d{2,4},'' @ BSL # ''s'' @ BSL # ''d{1,2}:''
     @ BSL # ''d{2}(?::'' @ BSL # ''d{2})?)'' @ BSL # ''s-'' @ BSL # ''s(.*?):''
     @ BSL # ''s(.*?)(?='' @ BSL # ''n'' @ BSL # ''d{1,2}/'' @ BSL # ''d{1,2}/'' @ BSL # ''d{2,4},''
     @ BSL # ''s'' @ BSL # ''d{1,2}:'' @ BSL # ''d{2}(?::'' @ BSL # ''d{2})?)''
     @ BSL # ''s-'' @ BSL # ''s|$)''"

definition media_pattern :: string where
  "media_pattern = ''<Media omitted>|image omitted|video omitted|sticker omitted''"

definition url_pattern :: string where
  "url_pattern = ''(https?://[^'' @ BSL # ''s]+)''"

section \<open>Timestamps\<close>

text \<open>
  A pandas timestamp (\<open>datetime64[ns]\<close>) is a number of nanoseconds since
  1970-01-01T00:00:00; \<open>NaT\<close> is \<open>None\<close>.  The accessors of \<open>.dt\<close> read the calendar
  fields off that number (proleptic Gregorian calendar).
\<close>

definition ns_per_day :: int where
  "ns_per_day = 86400000000000"

definition dt_days :: "int \<Rightarrow> int" where
  "dt_days t = t div ns_per_day"

definition day_of_era :: "int \<Rightarrow> int" where
  "day_of_era t = (dt_days t + 719468) mod 146097"

definition year_of_era :: "int \<Rightarrow> int" where
  "year_of_era t =
     (day_of_era t - day_of_era t div 1460 + day_of_era t div 36524 - day_of_era t div 146096)
       div 365"

definition day_of_year :: "int \<Rightarrow> int" where
  "day_of_year t =
     day_of_era t - (365 * year_of_era t + year_of_era t div 4 - year_of_era t div 100)"

text \<open>
  The month counted from March, 0..11: the number of months that have begun by that day
  of the year (which starts on 1 March), not counting March.
\<close>

definition month_starts :: "int list" where
  "month_starts = [0, 31, 61, 92, 122, 153, 184, 214, 245, 275, 306, 337]"

definition month_from_march :: "int \<Rightarrow> int" where
  "month_from_march t = int (length (filter (\<lambda>s. s \<le> day_of_year t) (tl month_starts)))"

definition dt_month :: "int \<Rightarrow> int" where
  "dt_month t = (if month_from_march t < 10 then month_from_march t + 3 else month_from_march t - 9)"

definition dt_day :: "int \<Rightarrow> int" where
  "dt_day t = day_of_year t - month_starts ! nat (month_from_march t) + 1"

definition dt_year :: "int \<Rightarrow> int" where
  "dt_year t =
     year_of_era t + ((dt_days t + 719468) div 146097) * 400 + (if dt_month t \<le> 2 then 1 else 0)"

definition dt_hour :: "int \<Rightarrow> int" where
  "dt_hour t = (t mod ns_per_day) div 3600000000000"

definition dt_date :: "int \<Rightarrow> int \<times> int \<times> int" where
  "dt_date t = (dt_year t, dt_month t, dt_day t)"

text \<open>Monday is 0; 1970-01-01 was a Thursday.\<close>

definition dt_weekday :: "int \<Rightarrow> int" where
  "dt_weekday t = (dt_days t + 3) mod 7"

definition day_names :: "string list" where
  "day_names = [''Monday'', ''Tuesday'', ''Wednesday'', ''Thursday'', ''Friday'', ''Saturday'',
                ''Sunday'']"

definition month_names :: "string list" where
  "month_names = [''January'', ''February'', ''March'', ''April'', ''May'', ''June'', ''July'',
                  ''August'', ''September'', ''October'', ''November'', ''December'']"

text \<open>A name is looked up only inside its table.\<close>

definition name_at :: "string list \<Rightarrow> int \<Rightarrow> string option" where
  "name_at names i = (if 0 \<le> i \<and> i < int (length names) then Some (names ! nat i) else None)"

definition dt_day_name :: "int \<Rightarrow> string option" where
  "dt_day_name t = name_at day_names (dt_weekday t)"

definition dt_month_name :: "int \<Rightarrow> string option" where
  "dt_month_name t = name_at month_names (dt_month t - 1)"

section \<open>The data frame\<close>

text \<open>
  What the program takes from its libraries and does not contain itself:
  the Unicode table of decimal digits (for \<open>\d\<close>), the keys of \<open>emoji.EMOJI_DATA\<close>,
  and \<open>pd.to_datetime(column, errors='coerce')\<close>.  The result of \<open>to_datetime\<close> for
  one cell may depend on the whole column (pandas infers a format from it), so the
  function takes the column and the index of the cell; \<open>None\<close> is \<open>NaT\<close>.
  An \<open>env\<close> is the state of the libraries at one invocation: \<open>to_datetime\<close> reads
  the clock when it resolves a year of two digits, so it need not be the same function
  at two invocations.
\<close>

record env =
  unicode_decimal :: "int \<Rightarrow> bool"
  EMOJI_DATA :: "pystr set"
  to_datetime :: "pystr list \<Rightarrow> nat \<Rightarrow> int option"

text \<open>
  A row of the data frame that \<open>preprocess_chat\<close> returns.  A cell of a calendar
  column can be missing (pandas has \<open>NaT\<close> and \<open>NaN\<close>), so these are options.
\<close>

record row =
  timestamp :: "int option"
  user :: pystr
  message :: pystr
  has_media :: bool
  has_url :: bool
  emojis :: "pystr list"
  emoji_count :: nat
  message_length :: nat
  date :: "(int \<times> int \<times> int) option"
  day :: "string option"
  hour :: "int option"
  month :: "string option"
  year :: "int option"

text \<open>\<open>str.strip()\<close>.\<close>

definition strip :: "pystr \<Rightarrow> pystr" where
  "strip s = rev (dropWhile unicode_space (rev (dropWhile unicode_space s)))"

text \<open>
  \<open>pd.DataFrame(matches, columns=['timestamp', 'user', 'message'])\<close>: every match
  has to bring three values.
\<close>

fun three_columns :: "pystr list list \<Rightarrow> exn + (pystr \<times> pystr \<times> pystr) list" where
  "three_columns [] = Inr []"
| "three_columns ([t, u, m] # ms) =
     (case three_columns ms of Inl e \<Rightarrow> Inl e | Inr rows \<Rightarrow> Inr ((t, u, m) # rows))"
| "three_columns (_ # ms) = Inl ValueError"

text \<open>
  \<open>df['timestamp'] = pd.to_datetime(df['timestamp'], errors='coerce')\<close>: the
  timestamp cell of row \<open>i\<close> becomes the \<open>i\<close>-th result for the column.
\<close>

definition convert_timestamps ::
  "env \<Rightarrow> (pystr \<times> pystr \<times> pystr) list \<Rightarrow> (int option \<times> pystr \<times> pystr) list" where
  "convert_timestamps e rows =
     map (\<lambda>i. (to_datetime e (map fst rows) i, snd (rows ! i))) [0..<length rows]"

text \<open>\<open>df.dropna(subset=['timestamp'])\<close>.\<close>

definition dropna :: "(int option \<times> pystr \<times> pystr) list \<Rightarrow> (int option \<times> pystr \<times> pystr) list" where
  "dropna rows = filter (\<lambda>r. fst r \<noteq> None) rows"

text \<open>The columns that are added to a row, in the order of the source.\<close>

definition add_columns :: "env \<Rightarrow> regex \<Rightarrow> regex \<Rightarrow> int option \<times> pystr \<times> pystr \<Rightarrow> row" where
  "add_columns e media_re url_re r =
     (let ts = fst r; usr = fst (snd r); msg = snd (snd r);
          found = [[c]. c \<leftarrow> msg, [c] \<in> EMOJI_DATA e]
      in \<lparr> timestamp = ts,
           user = strip usr,
           message = msg,
           has_media = scan_any (unicode_decimal e) media_re msg,
           has_url = scan_any (unicode_decimal e) url_re msg,
           emojis = found,
           emoji_count = length found,
           message_length = length msg,
           date = map_option dt_date ts,
           day = Option.bind ts dt_day_name,
           hour = map_option dt_hour ts,
           month = Option.bind ts dt_month_name,
           year = map_option dt_year ts \<rparr>)"

text \<open>
  From the data frame of the matches to the result.  \<open>str.contains\<close> compiles its
  pattern once for the column; \<open>case=False\<close> is \<open>re.IGNORECASE\<close>.
\<close>

definition build_frame :: "env \<Rightarrow> pystr list list \<Rightarrow> exn + row list option" where
  "build_frame e matches =
     (case three_columns matches of
        Inl ex \<Rightarrow> Inl ex
      | Inr df \<Rightarrow>
          (case re_compile [IGNORECASE] media_pattern of
             Inl ex \<Rightarrow> Inl ex
           | Inr (media_re, _) \<Rightarrow>
               (case re_compile [] url_pattern of
                  Inl ex \<Rightarrow> Inl ex
                | Inr (url_re, _) \<Rightarrow>
                    Inr (Some (map (add_columns e media_re url_re)
                                 (dropna (convert_timestamps e df)))))))"

section \<open>\<open>preprocess_chat\<close>\<close>

text \<open>
  The part of \<open>preprocess_chat\<close> after decoding.  The result is an exception (\<open>Inl\<close>),
  Python's \<open>None\<close> (\<open>Inr None\<close>) or a data frame (\<open>Inr (Some rows)\<close>).
\<close>

definition parse_content :: "env \<Rightarrow> pystr \<Rightarrow> exn + row list option" where
  "parse_content e content =
     (case re_findall (unicode_decimal e) pattern content [DOTALL] of
        Inl ex \<Rightarrow> Inl ex
      | Inr matches \<Rightarrow>
          (case (if matches = []
                 then re_findall (unicode_decimal e) alternative_pattern content [DOTALL]
                 else Inr matches) of
             Inl ex \<Rightarrow> Inl ex
           | Inr matches \<Rightarrow>
               if matches = [] then Inr None else build_frame e matches))"

text \<open>
  \<open>file_upload\<close> is \<open>None\<close> or an uploaded file, of which the function reads
  \<open>getvalue()\<close>, the bytes of the file.
\<close>

definition preprocess_chat :: "env \<Rightarrow> bytes option \<Rightarrow> exn + row list option" where
  "preprocess_chat e file_upload =
     (case file_upload of
        None \<Rightarrow> Inr None
      | Some data \<Rightarrow>
          (case read_content data of
             None \<Rightarrow> Inr None
           | Some content \<Rightarrow> parse_content e content))"

section \<open>An instance of the libraries\<close>

text \<open>
  For running \<open>preprocess_chat\<close> on concrete transcripts the three library parameters
  need values.  The decimal digits are those of Unicode 14.0 (the database of CPython
  3.11): blocks of consecutive code points, given by start and length.
\<close>

definition decimal_blocks :: "(int \<times> int) list" where
  "decimal_blocks =
     [(0x30, 10), (0x660, 10), (0x6F0, 10), (0x7C0, 10), (0x966, 10), (0x9E6, 10), (0xA66, 10),
      (0xAE6, 10), (0xB66, 10), (0xBE6, 10), (0xC66, 10), (0xCE6, 10), (0xD66, 10), (0xDE6, 10),
      (0xE50, 10), (0xED0, 10), (0xF20, 10), (0x1040, 10), (0x1090, 10), (0x17E0, 10),
      (0x1810, 10), (0x1946, 10), (0x19D0, 10), (0x1A80, 10), (0x1A90, 10), (0x1B50, 10),
      (0x1BB0, 10), (0x1C40, 10), (0x1C50, 10), (0xA620, 10), (0xA8D0, 10), (0xA900, 10),
      (0xA9D0, 10), (0xA9F0, 10), (0xAA50, 10), (0xABF0, 10), (0xFF10, 10), (0x104A0, 10),
      (0x10D30, 10), (0x11066, 10), (0x110F0, 10), (0x11136, 10), (0x111D0, 10), (0x112F0, 10),
      (0x11450, 10), (0x114D0, 10), (0x11650, 10), (0x116C0, 10), (0x11730, 10), (0x118E0, 10),
      (0x11950, 10), (0x11C50, 10), (0x11D50, 10), (0x11DA0, 10), (0x16A60, 10), (0x16AC0, 10),
      (0x16B50, 10), (0x1D7CE, 50), (0x1E140, 10), (0x1E2F0, 10), (0x1E950, 10), (0x1FBF0, 10)]"

definition unicode14_decimal :: "int \<Rightarrow> bool" where
  "unicode14_decimal c =
     (if c < 128 then 48 \<le> c \<and> c \<le> 57
      else list_ex (\<lambda>b. fst b \<le> c \<and> c < fst b + snd b) decimal_blocks)"

text \<open>
  A few keys of \<open>emoji.EMOJI_DATA\<close>: grinning face, thumbs up, the medium skin tone,
  thumbs up with that skin tone (two code points), the red heart without and with
  its variation selector U+FE0F.
\<close>

definition emoji_sample :: "pystr set" where
  "emoji_sample =
     {[0x1F600], [0x1F44D], [0x1F3FD], [0x1F44D, 0x1F3FD], [0x2764], [0x2764, 0xFE0F]}"

text \<open>
  A \<open>to_datetime\<close> that reads every cell on its own, month first.
\<close>

definition ascii_digit :: "int \<Rightarrow> bool" where
  "ascii_digit c \<longleftrightarrow> 48 \<le> c \<and> c \<le> 57"

definition number :: "pystr \<Rightarrow> int" where
  "number ds = foldl (\<lambda>n d. 10 * n + (d - 48)) 0 ds"

text \<open>A field of \<open>lo\<close> to \<open>hi\<close> digits, then the separator \<open>sep\<close>; the value and the rest.\<close>

definition field :: "nat \<Rightarrow> nat \<Rightarrow> int \<Rightarrow> pystr \<Rightarrow> (int \<times> pystr) option" where
  "field lo hi sep s =
     (let ds = takeWhile ascii_digit s; r = dropWhile ascii_digit s in
      if lo \<le> length ds \<and> length ds \<le> hi \<and> r \<noteq> [] \<and> hd r = sep
      then Some (number ds, tl r) else None)"

definition leap_year :: "int \<Rightarrow> bool" where
  "leap_year y \<longleftrightarrow> y mod 4 = 0 \<and> (y mod 100 \<noteq> 0 \<or> y mod 400 = 0)"

definition days_in_month :: "int \<Rightarrow> int \<Rightarrow> int" where
  "days_in_month y m =
     (if m = 2 then (if leap_year y then 29 else 28)
      else if m = 4 \<or> m = 6 \<or> m = 9 \<or> m = 11 then 30 else 31)"

definition days_from_civil :: "int \<Rightarrow> int \<Rightarrow> int \<Rightarrow> int" where
  "days_from_civil y m d =
     (let y' = (if m \<le> 2 then y - 1 else y);
          doy = (153 * (if m > 2 then m - 3 else m + 9) + 2) div 5 + d - 1;
          doe = (y' mod 400) * 365 + (y' mod 400) div 4 - (y' mod 400) div 100 + doy
      in (y' div 400) * 146097 + doe - 719468)"

text \<open>
  A year of two digits is resolved against the clock: it is taken in the current
  century and then moved by a century if that is 50 years or more after, or more than 50
  years before, the current year \<open>now\<close> (this is what \<open>dateutil\<close>, to which pandas falls
  back, does with \<open>time.localtime().tm_year\<close>).
\<close>

definition convertyear :: "int \<Rightarrow> bool \<Rightarrow> int \<Rightarrow> int" where
  "convertyear now two_digits y =
     (if two_digits then
        (let y1 = y + (now div 100) * 100 in
         if y1 \<ge> now + 50 then y1 - 100
         else if y1 < now - 50 then y1 + 100
         else y1)
      else y)"

text \<open>
  One cell: month/day/year, a comma and a space, hours and minutes (and seconds, if any)
  of a 12-hour clock, a space and AM or PM in either case.  A cell of this form that is
  no date of the calendar (day 32), or whose year is outside what a timestamp of
  nanoseconds can hold, is \<open>NaT\<close>.  This is a stand-in for the sample runs and not
  pandas' parser: pandas reads more forms (a day before the month when the first number
  is above 12, other white space before AM), which the stand-in takes for \<open>NaT\<close>.  The
  theorems that hold for every \<open>env\<close> do not depend on it.
\<close>

definition month_first_12h :: "int \<Rightarrow> pystr \<Rightarrow> int option" where
  "month_first_12h now s =
     (case field 1 2 47 s of None \<Rightarrow> None | Some (mo, s1) \<Rightarrow>
      case field 1 2 47 s1 of None \<Rightarrow> None | Some (da, s2) \<Rightarrow>
      case field 2 4 44 s2 of None \<Rightarrow> None | Some (yr, s3) \<Rightarrow>
      case field 0 0 32 s3 of None \<Rightarrow> None | Some (_, s4) \<Rightarrow>
      case field 1 2 58 s4 of None \<Rightarrow> None | Some (hh, s5) \<Rightarrow>
      case (case field 2 2 58 s5 of
              Some (mi, s5') \<Rightarrow>
                (case field 2 2 32 s5' of None \<Rightarrow> None | Some (se, s6) \<Rightarrow> Some (mi, se, s6))
            | None \<Rightarrow>
                (case field 2 2 32 s5 of None \<Rightarrow> None | Some (mi, s6) \<Rightarrow> Some (mi, 0, s6))) of
        None \<Rightarrow> None
      | Some (mi, se, s6) \<Rightarrow>
          (let y = convertyear now (length (takeWhile ascii_digit s2) = 2) yr;
               pm = (map ascii_lower s6 = [112, 109]) in
           if (map ascii_lower s6 = [97, 109] \<or> pm)
              \<and> 1677 < y \<and> y < 2262
              \<and> 1 \<le> mo \<and> mo \<le> 12 \<and> 1 \<le> da \<and> da \<le> days_in_month y mo
              \<and> 1 \<le> hh \<and> hh \<le> 12 \<and> mi < 60 \<and> se < 60
           then Some ((((days_from_civil y mo da * 24 + (hh mod 12 + (if pm then 12 else 0))) * 60
                         + mi) * 60 + se) * 1000000000)
           else None))"

definition to_datetime_cells :: "int \<Rightarrow> pystr list \<Rightarrow> nat \<Rightarrow> int option" where
  "to_datetime_cells now column i =
     (if i < length column then month_first_12h now (column ! i) else None)"

text \<open>The libraries as they are when the clock shows the year \<open>now\<close>.\<close>

definition sample_env_at :: "int \<Rightarrow> env" where
  "sample_env_at now =
     \<lparr> unicode_decimal = unicode14_decimal,
       EMOJI_DATA = emoji_sample,
       to_datetime = to_datetime_cells now \<rparr>"

definition sample_env :: env where
  "sample_env = sample_env_at 2026"

section \<open>The compiled patterns\<close>

text \<open>
  The syntax trees that \<^const>\<open>re_compile\<close> gives for the patterns of the program, named
  part by part (that they are what the compiler gives is proved below).  The timestamp
  with its AM/PM marker:
\<close>

definition timestamp_items :: "regex list" where
  "timestamp_items =
     [Repeat 1 2 (Atom Digit), Atom (Lit 47), Repeat 1 2 (Atom Digit), Atom (Lit 47),
      Repeat 2 4 (Atom Digit), Atom (Lit 44), Atom Space, Repeat 1 2 (Atom Digit),
      Atom (Lit 58), Repeat 2 2 (Atom Digit),
      Repeat 0 1 (Cat (Atom (Lit 58)) (Repeat 2 2 (Atom Digit))), Atom Space,
      Atom (OneOf [SChar 65, SChar 80, SChar 97, SChar 112]),
      Atom (OneOf [SChar 77, SChar 109])]"

text \<open>The timestamp prefix of a message: the timestamp, then \<open>\s-\s\<close>.\<close>

definition prefix_re :: regex where
  "prefix_re = seq_of (timestamp_items @ [Atom Space, Atom (Lit 45), Atom Space])"

text \<open>The first alternative of the lookahead: a newline, then a timestamp prefix.\<close>

definition boundary_re :: regex where
  "boundary_re = Cat (Atom (Lit 10)) prefix_re"

definition pattern_items :: "regex list" where
  "pattern_items =
     [Group 1 (seq_of timestamp_items), Atom Space, Atom (Lit 45), Atom Space,
      Group 2 (LazyStar AnyChar), Atom (Lit 58), Atom Space,
      Group 3 (LazyStar AnyChar), Lookahead (Alt boundary_re EndAnchor)]"

definition pattern_re :: regex where
  "pattern_re = seq_of pattern_items"



definition media_phrases :: "string list" where
  "media_phrases = [''<Media omitted>'', ''image omitted'', ''video omitted'', ''sticker omitted'']"

definition phrase_re :: "string \<Rightarrow> regex" where
  "phrase_re phrase = seq_of (map (\<lambda>c. Atom (LitIgn (ascii_lower (of_char c)))) phrase)"

definition media_re :: regex where
  "media_re = alt_of (map phrase_re media_phrases)"

definition url_re :: regex where
  "url_re =
     Group 1 (seq_of [Atom (Lit 104), Atom (Lit 116), Atom (Lit 116), Atom (Lit 112),
                      Repeat 0 1 (Atom (Lit 115)), Atom (Lit 58), Atom (Lit 47), Atom (Lit 47),
                      Atom (NoneOf [SSpace]), Star (NoneOf [SSpace])])"

section \<open>Notions of the specification\<close>

text \<open>
  A phrase occurs in a body, ignoring case: at some index of the body there are as many
  characters as the phrase has, each equal to its character of the phrase up to case
  (in the sense of \<^const>\<open>ignorecase_eq\<close>).
\<close>

definition occurs_ignoring_case :: "string \<Rightarrow> pystr \<Rightarrow> bool" where
  "occurs_ignoring_case phrase body =
     list_ex (\<lambda>i. list_all2 ignorecase_eq (str_of phrase) (take (length phrase) (drop i body)))
       [0..<Suc (length body)]"





text \<open>The three cells of a match.\<close>

definition cells :: "pystr list \<Rightarrow> pystr \<times> pystr \<times> pystr" where
  "cells m = (m ! 0, m ! 1, m ! 2)"

text \<open>The rows that a data frame keeps of the matches, by index: those that are not \<open>NaT\<close>.\<close>

definition kept :: "env \<Rightarrow> pystr list list \<Rightarrow> nat list" where
  "kept e matches =
     filter (\<lambda>i. to_datetime e (map hd matches) i \<noteq> None) [0..<length matches]"

text \<open>The record sequence of a result: the rows of the data frame, if one is returned.\<close>

fun frame_rows :: "exn + row list option \<Rightarrow> row list" where
  "frame_rows (Inr (Some rows)) = rows"
| "frame_rows _ = []"

section \<open>Transcripts\<close>

text \<open>A transcript in the 24-hour dialect, as bytes (ASCII).\<close>

definition transcript_24h :: bytes where
  "transcript_24h = ''1/2/23, 21:05 - Alice: Hello\<newline>1/2/23, 21:06 - Bob: Hi''"

text \<open>
  The transcript of the concrete scenario of the specification, in UTF-8; the last four
  bytes are the grinning face U+1F600 (code point 128512).
\<close>

definition scenario :: bytes where
  "scenario =
     ''1/2/23, 9:05 AM - Alice: Hello there\<newline>1/2/23, 9:06 AM - Bob: <Media omitted>\<newline>1/2/23, 9:07 AM - Alice: check https://example.com ''
     @ [CHR 0xF0, CHR 0x9F, CHR 0x98, CHR 0x80]"

text \<open>Three messages; the second has day 32.\<close>

definition day32_transcript :: bytes where
  "day32_transcript =
     ''1/2/23, 9:05 AM - Alice: one\<newline>1/32/23, 9:06 AM - Bob: two\<newline>1/3/23, 9:07 AM - Carol: three''"

text \<open>The same three messages in the 24-hour dialect.\<close>

definition day32_24h_transcript :: bytes where
  "day32_24h_transcript =
     ''1/2/23, 21:05 - Alice: one\<newline>1/32/23, 21:06 - Bob: two\<newline>1/3/23, 21:07 - Carol: three''"

text \<open>Three messages; the second has day 32 and nothing after its colon.\<close>

definition empty_body_transcript :: bytes where
  "empty_body_transcript =
     ''1/2/23, 9:05 AM - Alice: one\<newline>1/32/23, 9:06 AM - Bob:\<newline>1/3/23, 9:07 AM - Carol: three''"



text \<open>One message dated in the year 76.\<close>

definition year76_transcript :: bytes where
  "year76_transcript = ''1/2/76, 9:05 AM - A: hi''"



text \<open>
  One message whose body is the red heart with its variation selector, U+2764 U+FE0F,
  and one whose body is thumbs up with a skin tone, U+1F44D U+1F3FD (UTF-8).
\<close>

definition heart_transcript :: bytes where
  "heart_transcript =
     ''1/2/23, 9:05 AM - A: '' @ [CHR 0xE2, CHR 0x9D, CHR 0xA4, CHR 0xEF, CHR 0xB8, CHR 0x8F]"

definition thumbs_transcript :: bytes where
  "thumbs_transcript =
     ''1/2/23, 9:05 AM - A: ok '' @ [CHR 0xF0, CHR 0x9F, CHR 0x91, CHR 0x8D, CHR 0xF0, CHR 0x9F, CHR 0x8F, CHR 0xBD]"

text \<open>The same text, \<open>caf\<close> and e with acute accent, in Latin-1 and in UTF-8.\<close>

definition cafe_latin1 :: bytes where
  "cafe_latin1 = ''1/2/23, 9:05 AM - A: caf'' @ [CHR 0xE9]"

definition cafe_utf8 :: bytes where
  "cafe_utf8 = ''1/2/23, 9:05 AM - A: caf'' @ [CHR 0xC3, CHR 0xA9]"

text \<open>A placeholder phrase in other case, with text around it.\<close>

definition media_transcript :: bytes where
  "media_transcript = ''1/2/23, 9:05 AM - A: see IMAGE Omitted here''"

section \<open>What the patterns compile to\<close>

lemma compile_pattern: "re_compile [DOTALL] pattern = Inr (pattern_re, 3)"
  by code_simp

lemma compile_alternative:
  "re_compile [DOTALL] alternative_pattern = Inl (re_error ''unbalanced parenthesis'' 133)"
  by code_simp

lemma compile_media: "re_compile [IGNORECASE] media_pattern = Inr (media_re, 0)"
  by code_simp

lemma compile_url: "re_compile [] url_pattern = Inr (url_re, 1)"
  by code_simp

lemma findall_pattern:
  "re_findall D pattern content [DOTALL] = Inr (scan_all D pattern_re 3 False content)"
  by (simp add: re_findall_def compile_pattern)

lemma findall_alternative:
  "re_findall D alternative_pattern content [DOTALL] = Inl (re_error ''unbalanced parenthesis'' 133)"
  by (simp add: re_findall_def compile_alternative)

lemma parse_content_eq:
  "parse_content e content =
     (if scan_all (unicode_decimal e) pattern_re 3 False content = []
      then Inl (re_error ''unbalanced parenthesis'' 133)
      else build_frame e (scan_all (unicode_decimal e) pattern_re 3 False content))"
  by (simp add: parse_content_def findall_pattern findall_alternative)

lemma build_frame_eq:
  "build_frame e matches =
     (case three_columns matches of
        Inl ex \<Rightarrow> Inl ex
      | Inr df \<Rightarrow>
         Inr (Some (map (add_columns e media_re url_re) (dropna (convert_timestamps e df)))))"
  by (simp add: build_frame_def compile_media compile_url split: sum.split)


lemma findall_item_length: "0 < g \<Longrightarrow> length (findall_item g s st) = g"
  by (simp add: findall_item_def)

lemma scan_all_lengths:
  "0 < g \<Longrightarrow> m \<in> set (scan_all D r g ma s) \<Longrightarrow> length m = g"
proof (induction D r g ma s rule: scan_all.induct)
  case (1 D r g must_advance s)
  from "1.prems"(2) have mem:
    "m \<in> set (case filter (\<lambda>st. \<not> must_advance \<or> length (snd st) < length s) (rmatch D r ([], s)) of
        [] \<Rightarrow> (case s of [] \<Rightarrow> [] | x # xs \<Rightarrow> scan_all D r g False xs)
      | st # _ \<Rightarrow>
          findall_item g s st #
            (if length (snd st) < length s then scan_all D r g False (snd st)
             else if must_advance then []
             else scan_all D r g True s))"
    by (subst (asm) scan_all.simps) simp
  show ?case
  proof (cases "filter (\<lambda>st. \<not> must_advance \<or> length (snd st) < length s) (rmatch D r ([], s))")
    case Nil
    with mem "1.IH"(1) "1.prems"(1) show ?thesis
      by (cases s) auto
  next
    case (Cons st sts)
    with mem "1.IH"(2,3) "1.prems"(1) show ?thesis
      by (auto simp: findall_item_length split: if_splits)
  qed
qed

lemma three_columns_ok:
  "\<forall>m \<in> set ms. length m = 3 \<Longrightarrow> three_columns ms = Inr (map cells ms)"
proof (induction ms)
  case Nil
  then show ?case by simp
next
  case (Cons m ms)
  then obtain t u b where "m = [t, u, b]"
    by (cases m; cases "tl m"; cases "tl (tl m)"; cases "tl (tl (tl m))") auto
  with Cons show ?case by (simp add: cells_def)
qed

lemma dropna_convert:
  "dropna (convert_timestamps e df) =
     map (\<lambda>i. (to_datetime e (map fst df) i, snd (df ! i)))
       (filter (\<lambda>i. to_datetime e (map fst df) i \<noteq> None) [0..<length df])"
  by (simp add: dropna_def convert_timestamps_def filter_map comp_def)

lemma frame_of_matches:
  assumes "\<forall>m \<in> set ms. length m = 3"
  shows "build_frame e ms =
           Inr (Some (map (\<lambda>i. add_columns e media_re url_re
                                  (to_datetime e (map hd ms) i, ms ! i ! 1, ms ! i ! 2))
                        (kept e ms)))"
proof -
  have "fst (cells m) = hd m" if "m \<in> set ms" for m
    using assms that by (cases m) (auto simp: cells_def)
  then have col: "map fst (map cells ms) = map hd ms"
    by simp
  have tc: "three_columns ms = Inr (map cells ms)"
    using assms by (rule three_columns_ok)
  have "dropna (convert_timestamps e (map cells ms))
        = map (\<lambda>i. (to_datetime e (map hd ms) i, snd (map cells ms ! i))) (kept e ms)"
    unfolding dropna_convert col kept_def by simp
  also have "\<dots> = map (\<lambda>i. (to_datetime e (map hd ms) i, ms ! i ! 1, ms ! i ! 2)) (kept e ms)"
    by (rule map_cong) (auto simp: kept_def cells_def)
  finally have d: "dropna (convert_timestamps e (map cells ms))
        = map (\<lambda>i. (to_datetime e (map hd ms) i, ms ! i ! 1, ms ! i ! 2)) (kept e ms)" .
  show ?thesis
    unfolding build_frame_eq tc by (simp add: d comp_def)
qed

lemma parse_content_rows:
  assumes "scan_all (unicode_decimal e) pattern_re 3 False content = ms" and "ms \<noteq> []"
  shows "parse_content e content =
           Inr (Some (map (\<lambda>i. add_columns e media_re url_re
                                  (to_datetime e (map hd ms) i, ms ! i ! 1, ms ! i ! 2))
                        (kept e ms)))"
proof -
  have "length m = 3" if "m \<in> set ms" for m
    using that assms(1) scan_all_lengths [where g = 3 and m = m] by auto
  then have "\<forall>m \<in> set ms. length m = 3"
    by blast
  then show ?thesis
    using assms by (simp add: parse_content_eq frame_of_matches)
qed

lemma parse_content_no_match:
  assumes "scan_all (unicode_decimal e) pattern_re 3 False content = []"
  shows "parse_content e content = Inl (re_error ''unbalanced parenthesis'' 133)"
  using assms by (simp add: parse_content_eq)


section \<open>The rows of a returned frame\<close>

lemma preprocess_frame:
  assumes "preprocess_chat e file_upload = Inr (Some rows)"
  obtains data content where
    "file_upload = Some data" "read_content data = Some content"
    "scan_all (unicode_decimal e) pattern_re 3 False content \<noteq> []"
    "rows = map (\<lambda>i. add_columns e media_re url_re
                        (to_datetime e (map hd (scan_all (unicode_decimal e) pattern_re 3 False content)) i,
                         scan_all (unicode_decimal e) pattern_re 3 False content ! i ! 1,
                         scan_all (unicode_decimal e) pattern_re 3 False content ! i ! 2))
             (kept e (scan_all (unicode_decimal e) pattern_re 3 False content))"
proof -
  from assms obtain data where d: "file_upload = Some data"
    by (cases file_upload) (auto simp: preprocess_chat_def)
  with assms obtain content where c: "read_content data = Some content"
    by (cases "read_content data") (auto simp: preprocess_chat_def)
  with assms d have p: "parse_content e content = Inr (Some rows)"
    by (simp add: preprocess_chat_def)
  then have ne: "scan_all (unicode_decimal e) pattern_re 3 False content \<noteq> []"
    by (auto simp: parse_content_eq split: if_splits)
  from p parse_content_rows [OF refl ne, of ] have
    "rows = map (\<lambda>i. add_columns e media_re url_re
                        (to_datetime e (map hd (scan_all (unicode_decimal e) pattern_re 3 False content)) i,
                         scan_all (unicode_decimal e) pattern_re 3 False content ! i ! 1,
                         scan_all (unicode_decimal e) pattern_re 3 False content ! i ! 2))
             (kept e (scan_all (unicode_decimal e) pattern_re 3 False content))"
    by simp
  with d c ne show ?thesis
    by (rule that)
qed

lemma kept_not_nat: "i \<in> set (kept e ms) \<Longrightarrow> \<exists>t. to_datetime e (map hd ms) i = Some t"
  by (auto simp: kept_def)

lemma row_of_frame:
  assumes "r \<in> set (frame_rows (preprocess_chat e file_upload))"
  obtains t u m where "r = add_columns e media_re url_re (Some t, u, m)"
proof -
  from assms obtain rows where rows: "preprocess_chat e file_upload = Inr (Some rows)" "r \<in> set rows"
    by (cases "preprocess_chat e file_upload" rule: frame_rows.cases) auto
  from rows(1) obtain data content where
    "rows = map (\<lambda>i. add_columns e media_re url_re
                        (to_datetime e (map hd (scan_all (unicode_decimal e) pattern_re 3 False content)) i,
                         scan_all (unicode_decimal e) pattern_re 3 False content ! i ! 1,
                         scan_all (unicode_decimal e) pattern_re 3 False content ! i ! 2))
             (kept e (scan_all (unicode_decimal e) pattern_re 3 False content))"
    by (rule preprocess_frame)
  with rows(2) obtain i where
    i: "i \<in> set (kept e (scan_all (unicode_decimal e) pattern_re 3 False content))" and
    r: "r = add_columns e media_re url_re
           (to_datetime e (map hd (scan_all (unicode_decimal e) pattern_re 3 False content)) i,
            scan_all (unicode_decimal e) pattern_re 3 False content ! i ! 1,
            scan_all (unicode_decimal e) pattern_re 3 False content ! i ! 2)"
    by auto
  from i obtain t where
    "to_datetime e (map hd (scan_all (unicode_decimal e) pattern_re 3 False content)) i = Some t"
    using kept_not_nat by blast
  with r show ?thesis
    using that by simp
qed

lemma add_columns_fields:
  "timestamp (add_columns e a b (ts, u, m)) = ts"
  "user (add_columns e a b (ts, u, m)) = strip u"
  "message (add_columns e a b (ts, u, m)) = m"
  "has_media (add_columns e a b (ts, u, m)) = scan_any (unicode_decimal e) a m"
  "has_url (add_columns e a b (ts, u, m)) = scan_any (unicode_decimal e) b m"
  "emojis (add_columns e a b (ts, u, m)) = [[c]. c \<leftarrow> m, [c] \<in> EMOJI_DATA e]"
  "emoji_count (add_columns e a b (ts, u, m)) = length [[c]. c \<leftarrow> m, [c] \<in> EMOJI_DATA e]"
  "message_length (add_columns e a b (ts, u, m)) = length m"
  "date (add_columns e a b (ts, u, m)) = map_option dt_date ts"
  "day (add_columns e a b (ts, u, m)) = Option.bind ts dt_day_name"
  "hour (add_columns e a b (ts, u, m)) = map_option dt_hour ts"
  "month (add_columns e a b (ts, u, m)) = Option.bind ts dt_month_name"
  "year (add_columns e a b (ts, u, m)) = map_option dt_year ts"
  by (simp_all add: add_columns_def Let_def)

section \<open>Absent upload\<close>

text \<open>
  C10: called with \<open>None\<close> as its file upload, \<open>preprocess_chat\<close> returns \<open>None\<close> at
  once: whatever the libraries are, there is no exception and no data frame, and
  nothing of the result depends on decoding or on a pattern.
\<close>

theorem none_upload_returns_none: "preprocess_chat e None = Inr None"
  by (simp add: preprocess_chat_def)

section \<open>Sample runs\<close>

text \<open>
  What \<open>preprocess_chat\<close> returns on the sample transcripts, with the sample instance
  of the libraries.  Each is computed once; the witnesses below refer to these.
\<close>

lemma transcript_24h_raises:
  "preprocess_chat sample_env (Some transcript_24h) = Inl (re_error ''unbalanced parenthesis'' 133)"
  by code_simp

lemma scenario_frame:
  "preprocess_chat sample_env (Some scenario) =
     Inr (Some
       [\<lparr>timestamp = Some 1672650300000000000, user = str_of ''Alice'',
         message = str_of ''Hello there'',
         has_media = False, has_url = False, emojis = [], emoji_count = 0, message_length = 11,
         date = Some (2023, 1, 2), day = Some ''Monday'', hour = Some 9, month = Some ''January'',
         year = Some 2023\<rparr>,
        \<lparr>timestamp = Some 1672650360000000000, user = str_of ''Bob'',
         message = str_of ''<Media omitted>'',
         has_media = True, has_url = False, emojis = [], emoji_count = 0, message_length = 15,
         date = Some (2023, 1, 2), day = Some ''Monday'', hour = Some 9, month = Some ''January'',
         year = Some 2023\<rparr>,
        \<lparr>timestamp = Some 1672650420000000000, user = str_of ''Alice'',
         message = str_of ''check https://example.com '' @ [128512],
         has_media = False, has_url = True, emojis = [[128512]], emoji_count = 1,
         message_length = 27,
         date = Some (2023, 1, 2), day = Some ''Monday'', hour = Some 9, month = Some ''January'',
         year = Some 2023\<rparr>])"
  by code_simp

lemma day32_frame:
  "preprocess_chat sample_env (Some day32_transcript) =
     Inr (Some
       [\<lparr>timestamp = Some 1672650300000000000, user = str_of ''Alice'', message = str_of ''one'',
         has_media = False, has_url = False, emojis = [], emoji_count = 0, message_length = 3,
         date = Some (2023, 1, 2), day = Some ''Monday'', hour = Some 9, month = Some ''January'',
         year = Some 2023\<rparr>,
        \<lparr>timestamp = Some 1672736820000000000, user = str_of ''Carol'', message = str_of ''three'',
         has_media = False, has_url = False, emojis = [], emoji_count = 0, message_length = 5,
         date = Some (2023, 1, 3), day = Some ''Tuesday'', hour = Some 9, month = Some ''January'',
         year = Some 2023\<rparr>])"
  by code_simp

lemma day32_content:
  "read_content day32_transcript = Some (str_of day32_transcript)"
  by code_simp

lemma day32_matches:
  "re_findall unicode14_decimal pattern (str_of day32_transcript) [DOTALL] =
     Inr [[str_of ''1/2/23, 9:05 AM'', str_of ''Alice'', str_of ''one''],
          [str_of ''1/32/23, 9:06 AM'', str_of ''Bob'', str_of ''two''],
          [str_of ''1/3/23, 9:07 AM'', str_of ''Carol'', str_of ''three'']]"
  by code_simp

lemma day32_kept:
  "kept sample_env
     [[str_of ''1/2/23, 9:05 AM'', str_of ''Alice'', str_of ''one''],
      [str_of ''1/32/23, 9:06 AM'', str_of ''Bob'', str_of ''two''],
      [str_of ''1/3/23, 9:07 AM'', str_of ''Carol'', str_of ''three'']] = [0, 2]"
  by code_simp

lemma heart_frame:
  "preprocess_chat sample_env (Some heart_transcript) =
     Inr (Some
       [\<lparr>timestamp = Some 1672650300000000000, user = str_of ''A'', message = [10084, 65039],
         has_media = False, has_url = False, emojis = [[10084]], emoji_count = 1,
         message_length = 2,
         date = Some (2023, 1, 2), day = Some ''Monday'', hour = Some 9, month = Some ''January'',
         year = Some 2023\<rparr>])"
  by code_simp

lemma thumbs_frame:
  "preprocess_chat sample_env (Some thumbs_transcript) =
     Inr (Some
       [\<lparr>timestamp = Some 1672650300000000000, user = str_of ''A'',
         message = str_of ''ok '' @ [128077, 127997],
         has_media = False, has_url = False, emojis = [[128077], [127997]], emoji_count = 2,
         message_length = 5,
         date = Some (2023, 1, 2), day = Some ''Monday'', hour = Some 9, month = Some ''January'',
         year = Some 2023\<rparr>])"
  by code_simp

lemma cafe_content:
  "read_content cafe_latin1 = Some (str_of ''1/2/23, 9:05 AM - A: caf'' @ [233])"
  "read_content cafe_utf8 = Some (str_of ''1/2/23, 9:05 AM - A: caf'' @ [233])"
  by code_simp+

lemma cafe_matches:
  "re_findall unicode14_decimal pattern (str_of ''1/2/23, 9:05 AM - A: caf'' @ [233]) [DOTALL] =
     Inr [[str_of ''1/2/23, 9:05 AM'', str_of ''A'', str_of ''caf'' @ [233]]]"
  by code_simp

lemma cafe_frame_2026:
  "preprocess_chat (sample_env_at 2026) (Some cafe_latin1) =
     Inr (Some
       [\<lparr>timestamp = Some 1672650300000000000, user = str_of ''A'',
         message = str_of ''caf'' @ [233],
         has_media = False, has_url = False, emojis = [], emoji_count = 0, message_length = 4,
         date = Some (2023, 1, 2), day = Some ''Monday'', hour = Some 9, month = Some ''January'',
         year = Some 2023\<rparr>])"
  by code_simp

lemma media_frame:
  "preprocess_chat sample_env (Some media_transcript) =
     Inr (Some
       [\<lparr>timestamp = Some 1672650300000000000, user = str_of ''A'',
         message = str_of ''see IMAGE Omitted here'',
         has_media = True, has_url = False, emojis = [], emoji_count = 0, message_length = 22,
         date = Some (2023, 1, 2), day = Some ''Monday'', hour = Some 9, month = Some ''January'',
         year = Some 2023\<rparr>])"
  by code_simp

text \<open>The transcripts with day 32: in the 24-hour dialect, and with an empty second message.\<close>

lemma day32_24h_run:
  "preprocess_chat sample_env (Some day32_24h_transcript) = Inl (re_error ''unbalanced parenthesis'' 133)"
  by code_simp

lemma empty_body_matches:
  "re_findall unicode14_decimal pattern (str_of empty_body_transcript) [DOTALL] =
     Inr [[str_of ''1/2/23, 9:05 AM'', str_of ''Alice'', str_of ''one''],
          [str_of ''1/32/23, 9:06 AM'', str_of ''Bob'', str_of ''1/3/23, 9:07 AM - Carol: three'']]"
  by code_simp

lemma empty_body_frame:
  "preprocess_chat sample_env (Some empty_body_transcript) =
     Inr (Some
       [\<lparr>timestamp = Some 1672650300000000000, user = str_of ''Alice'', message = str_of ''one'',
         has_media = False, has_url = False, emojis = [], emoji_count = 0, message_length = 3,
         date = Some (2023, 1, 2), day = Some ''Monday'', hour = Some 9, month = Some ''January'',
         year = Some 2023\<rparr>])"
  by code_simp

text \<open>The message of the year 76, read in 2026 and read in 2027.\<close>

lemma year76_frame_2026:
  "preprocess_chat (sample_env_at 2026) (Some year76_transcript) =
     Inr (Some
       [\<lparr>timestamp = Some 189421500000000000, user = str_of ''A'', message = str_of ''hi'',
         has_media = False, has_url = False, emojis = [], emoji_count = 0, message_length = 2,
         date = Some (1976, 1, 2), day = Some ''Friday'', hour = Some 9, month = Some ''January'',
         year = Some 1976\<rparr>])"
  by code_simp

lemma year76_frame_2027:
  "preprocess_chat (sample_env_at 2027) (Some year76_transcript) =
     Inr (Some
       [\<lparr>timestamp = Some 3345181500000000000, user = str_of ''A'', message = str_of ''hi'',
         has_media = False, has_url = False, emojis = [], emoji_count = 0, message_length = 2,
         date = Some (2076, 1, 2), day = Some ''Thursday'', hour = Some 9, month = Some ''January'',
         year = Some 2076\<rparr>])"
  by code_simp












section \<open>The 24-hour dialect\<close>

text \<open>
  C1 (the code does not do what the claim says): on a transcript in the 24-hour dialect
  the primary pattern finds nothing and \<open>preprocess_chat\<close> turns to the alternative
  pattern.  That pattern has one closing parenthesis too many, at offset 133 (its last
  character), so \<open>re.findall\<close> raises \<open>re.error\<close> when it compiles it, and
  \<open>preprocess_chat\<close> raises instead of returning records.
\<close>

theorem fallback_raises:
  "preprocess_chat sample_env (Some transcript_24h) = Inl (re_error ''unbalanced parenthesis'' 133)
   \<and> length alternative_pattern = 134
   \<and> re_compile [DOTALL] alternative_pattern = Inl (re_error ''unbalanced parenthesis'' 133)"
proof -
  have "length alternative_pattern = 134"
    by code_simp
  then show ?thesis
    by (simp add: transcript_24h_raises compile_alternative)
qed

section \<open>Unreadable uploads\<close>




section \<open>Malformed timestamps\<close>

text \<open>
  C3 (the code does not do what the claim says): a block with day 32 is not always the
  only record that is lost.  In the 24-hour dialect the three-message transcript with
  day 32 in its second message gives no records at all: the primary pattern finds
  nothing, and the alternative pattern does not compile, so \<open>preprocess_chat\<close>
  raises \<open>re.error\<close>.  In the AM/PM dialect, when the day-32 message has nothing after
  its colon, the \<open>\s\<close> after the colon takes the newline, the body runs over the
  following block, and that well-formed block is lost together with the day-32 one: of
  three messages the result keeps the first only.
\<close>

theorem malformed_block_loses_others:
  "preprocess_chat sample_env (Some day32_24h_transcript) = Inl (re_error ''unbalanced parenthesis'' 133)
   \<and> re_findall (unicode_decimal sample_env) pattern (str_of empty_body_transcript) [DOTALL] =
       Inr [[str_of ''1/2/23, 9:05 AM'', str_of ''Alice'', str_of ''one''],
            [str_of ''1/32/23, 9:06 AM'', str_of ''Bob'', str_of ''1/3/23, 9:07 AM - Carol: three'']]
   \<and> map user (frame_rows (preprocess_chat sample_env (Some empty_body_transcript))) = [str_of ''Alice'']"
proof -
  have "re_findall (unicode_decimal sample_env) pattern (str_of empty_body_transcript) [DOTALL] =
       Inr [[str_of ''1/2/23, 9:05 AM'', str_of ''Alice'', str_of ''one''],
            [str_of ''1/32/23, 9:06 AM'', str_of ''Bob'', str_of ''1/3/23, 9:07 AM - Carol: three'']]"
    using empty_body_matches by (simp add: sample_env_def sample_env_at_def)
  then show ?thesis
    by (simp add: day32_24h_run empty_body_frame)
qed

text \<open>
  What does hold, of the matches rather than of the blocks: when the primary pattern
  finds matches \<open>ms\<close> in the decoded transcript, the rows of the data frame are, in
  order, exactly the matches for which \<open>to_datetime\<close> gives a timestamp, each with its
  user (stripped) and its message, and no row has a missing timestamp.
\<close>

lemma rows_are_converted_matches:
  assumes "read_content data = Some content"
    and "re_findall (unicode_decimal e) pattern content [DOTALL] = Inr ms"
    and "ms \<noteq> []"
  shows "\<exists>rows. preprocess_chat e (Some data) = Inr (Some rows)
           \<and> map timestamp rows = map (to_datetime e (map hd ms)) (kept e ms)
           \<and> map user rows = map (\<lambda>i. strip (ms ! i ! 1)) (kept e ms)
           \<and> map message rows = map (\<lambda>i. ms ! i ! 2) (kept e ms)
           \<and> kept e ms = filter (\<lambda>i. to_datetime e (map hd ms) i \<noteq> None) [0..<length ms]
           \<and> None \<notin> set (map timestamp rows)"
proof -
  let ?rows = "map (\<lambda>i. add_columns e media_re url_re
                          (to_datetime e (map hd ms) i, ms ! i ! 1, ms ! i ! 2)) (kept e ms)"
  from assms(2) have sc: "scan_all (unicode_decimal e) pattern_re 3 False content = ms"
    by (simp add: findall_pattern)
  have "preprocess_chat e (Some data) = Inr (Some ?rows)"
    using assms(1) parse_content_rows [OF sc assms(3)] by (simp add: preprocess_chat_def)
  moreover have ts: "map timestamp ?rows = map (to_datetime e (map hd ms)) (kept e ms)"
    by (simp add: add_columns_fields comp_def)
  moreover have "map user ?rows = map (\<lambda>i. strip (ms ! i ! 1)) (kept e ms)"
    by (simp add: add_columns_fields comp_def)
  moreover have "map message ?rows = map (\<lambda>i. ms ! i ! 2) (kept e ms)"
    by (simp add: add_columns_fields comp_def)
  moreover have "None \<notin> set (map timestamp ?rows)"
    unfolding ts by (auto simp: kept_def)
  ultimately show ?thesis
    by (intro exI [of _ ?rows]) (simp add: kept_def)
qed

text \<open>
  On the transcript whose second message has day 32 and a body: the pattern matches all
  three blocks, \<open>to_datetime\<close> gives \<open>NaT\<close> for the second, and the result has the first
  and the third.
\<close>

lemma day32_rows:
  "read_content day32_transcript = Some (str_of day32_transcript)
   \<and> re_findall (unicode_decimal sample_env) pattern (str_of day32_transcript) [DOTALL] =
       Inr [[str_of ''1/2/23, 9:05 AM'', str_of ''Alice'', str_of ''one''],
            [str_of ''1/32/23, 9:06 AM'', str_of ''Bob'', str_of ''two''],
            [str_of ''1/3/23, 9:07 AM'', str_of ''Carol'', str_of ''three'']]
   \<and> to_datetime sample_env
         [str_of ''1/2/23, 9:05 AM'', str_of ''1/32/23, 9:06 AM'', str_of ''1/3/23, 9:07 AM''] 1 = None
   \<and> (\<exists>rows. preprocess_chat sample_env (Some day32_transcript) = Inr (Some rows)
          \<and> map message rows = [str_of ''one'', str_of ''three'']
          \<and> map user rows = [str_of ''Alice'', str_of ''Carol'']
          \<and> None \<notin> set (map timestamp rows))"
proof -
  let ?ms = "[[str_of ''1/2/23, 9:05 AM'', str_of ''Alice'', str_of ''one''],
            [str_of ''1/32/23, 9:06 AM'', str_of ''Bob'', str_of ''two''],
            [str_of ''1/3/23, 9:07 AM'', str_of ''Carol'', str_of ''three'']]"
  have m: "re_findall (unicode_decimal sample_env) pattern (str_of day32_transcript) [DOTALL] = Inr ?ms"
    using day32_matches by (simp add: sample_env_def sample_env_at_def)
  have nat: "to_datetime sample_env
         [str_of ''1/2/23, 9:05 AM'', str_of ''1/32/23, 9:06 AM'', str_of ''1/3/23, 9:07 AM''] 1 = None"
    by code_simp
  have st: "strip (str_of ''Alice'') = str_of ''Alice''" "strip (str_of ''Carol'') = str_of ''Carol''"
    by code_simp+
  from rows_are_converted_matches [OF day32_content m] obtain rows where
    "preprocess_chat sample_env (Some day32_transcript) = Inr (Some rows)"
    "map user rows = map (\<lambda>i. strip (?ms ! i ! 1)) (kept sample_env ?ms)"
    "map message rows = map (\<lambda>i. ?ms ! i ! 2) (kept sample_env ?ms)"
    "None \<notin> set (map timestamp rows)"
    by auto
  then have "preprocess_chat sample_env (Some day32_transcript) = Inr (Some rows)
          \<and> map message rows = [str_of ''one'', str_of ''three'']
          \<and> map user rows = [str_of ''Alice'', str_of ''Carol'']
          \<and> None \<notin> set (map timestamp rows)"
    unfolding day32_kept by (simp add: st)
  then have "\<exists>rows. preprocess_chat sample_env (Some day32_transcript) = Inr (Some rows)
          \<and> map message rows = [str_of ''one'', str_of ''three'']
          \<and> map user rows = [str_of ''Alice'', str_of ''Carol'']
          \<and> None \<notin> set (map timestamp rows)"
    by (rule exI)
  with day32_content m nat show ?thesis
    by simp
qed


section \<open>Calendar fields\<close>

lemma weekday_range: "0 \<le> dt_weekday t \<and> dt_weekday t < 7"
  by (simp add: dt_weekday_def)

lemma month_from_march_range: "0 \<le> month_from_march t \<and> month_from_march t \<le> 11"
proof -
  have "length (filter (\<lambda>s. s \<le> day_of_year t) (tl month_starts)) \<le> length (tl month_starts)"
    by (rule length_filter_le)
  then show ?thesis
    by (simp add: month_from_march_def month_starts_def)
qed

lemma month_range: "1 \<le> dt_month t \<and> dt_month t \<le> 12"
  using month_from_march_range [of t] by (auto simp: dt_month_def)

lemma hour_range: "0 \<le> dt_hour t \<and> dt_hour t < 24"
proof -
  have "0 \<le> t mod ns_per_day" "t mod ns_per_day < ns_per_day"
    by (simp_all add: ns_per_day_def)
  then show ?thesis
    unfolding dt_hour_def ns_per_day_def by (simp add: div_less_iff_less_mult pos_imp_zdiv_nonneg_iff)
qed

lemma day_name_defined: "dt_day_name t = Some (day_names ! nat (dt_weekday t))"
  using weekday_range [of t] by (simp add: dt_day_name_def name_at_def day_names_def)

lemma month_name_defined: "dt_month_name t = Some (month_names ! nat (dt_month t - 1))"
  using month_range [of t] by (simp add: dt_month_name_def name_at_def month_names_def)

text \<open>
  C6: every record of the sequence that \<open>preprocess_chat\<close> returns has a timestamp,
  and its \<open>date\<close>, \<open>day\<close>, \<open>hour\<close>, \<open>month\<close> and \<open>year\<close> are all defined and are the
  calendar fields of that timestamp: the date is its year, month and day, the year is
  the year of the date, the month name is that of the month of the date (which is one of
  the twelve), the weekday name is that of its day of the week, and the hour is its hour
  of the day, from 0 to 23.
\<close>

theorem calendar_fields_defined:
  assumes "r \<in> set (frame_rows (preprocess_chat e file_upload))"
  shows "\<exists>t. timestamp r = Some t
            \<and> date r = Some (dt_year t, dt_month t, dt_day t)
            \<and> day r = Some (day_names ! nat (dt_weekday t))
            \<and> hour r = Some (dt_hour t)
            \<and> month r = Some (month_names ! nat (dt_month t - 1))
            \<and> year r = Some (dt_year t)
            \<and> 0 \<le> dt_weekday t \<and> dt_weekday t < 7
            \<and> 1 \<le> dt_month t \<and> dt_month t \<le> 12
            \<and> 0 \<le> dt_hour t \<and> dt_hour t < 24"
proof -
  from assms obtain t u m where r: "r = add_columns e media_re url_re (Some t, u, m)"
    by (rule row_of_frame)
  have "timestamp r = Some t" "date r = Some (dt_year t, dt_month t, dt_day t)"
    "hour r = Some (dt_hour t)" "year r = Some (dt_year t)"
    by (simp_all add: r add_columns_fields dt_date_def)
  moreover have "day r = Some (day_names ! nat (dt_weekday t))"
    by (simp add: r add_columns_fields day_name_defined)
  moreover have "month r = Some (month_names ! nat (dt_month t - 1))"
    by (simp add: r add_columns_fields month_name_defined)
  ultimately show ?thesis
    using weekday_range [of t] month_range [of t] hour_range [of t] by blast
qed


theorem calendar_fields_defined_witness:
  "hd (frame_rows (preprocess_chat sample_env (Some day32_transcript)))
     \<in> set (frame_rows (preprocess_chat sample_env (Some day32_transcript)))
   \<and> (\<exists>t. timestamp (hd (frame_rows (preprocess_chat sample_env (Some day32_transcript)))) = Some t
          \<and> date (hd (frame_rows (preprocess_chat sample_env (Some day32_transcript))))
              = Some (dt_year t, dt_month t, dt_day t)
          \<and> day (hd (frame_rows (preprocess_chat sample_env (Some day32_transcript))))
              = Some (day_names ! nat (dt_weekday t))
          \<and> hour (hd (frame_rows (preprocess_chat sample_env (Some day32_transcript))))
              = Some (dt_hour t)
          \<and> month (hd (frame_rows (preprocess_chat sample_env (Some day32_transcript))))
              = Some (month_names ! nat (dt_month t - 1))
          \<and> year (hd (frame_rows (preprocess_chat sample_env (Some day32_transcript))))
              = Some (dt_year t))
   \<and> date (hd (frame_rows (preprocess_chat sample_env (Some day32_transcript)))) = Some (2023, 1, 2)
   \<and> day (hd (frame_rows (preprocess_chat sample_env (Some day32_transcript)))) = Some ''Monday''
   \<and> hour (hd (frame_rows (preprocess_chat sample_env (Some day32_transcript)))) = Some 9
   \<and> month (hd (frame_rows (preprocess_chat sample_env (Some day32_transcript)))) = Some ''January''
   \<and> year (hd (frame_rows (preprocess_chat sample_env (Some day32_transcript)))) = Some 2023"
proof -
  have mem: "hd (frame_rows (preprocess_chat sample_env (Some day32_transcript)))
     \<in> set (frame_rows (preprocess_chat sample_env (Some day32_transcript)))"
    by (simp add: day32_frame)
  from calendar_fields_defined [OF mem] obtain t where
    "timestamp (hd (frame_rows (preprocess_chat sample_env (Some day32_transcript)))) = Some t
          \<and> date (hd (frame_rows (preprocess_chat sample_env (Some day32_transcript))))
              = Some (dt_year t, dt_month t, dt_day t)
          \<and> day (hd (frame_rows (preprocess_chat sample_env (Some day32_transcript))))
              = Some (day_names ! nat (dt_weekday t))
          \<and> hour (hd (frame_rows (preprocess_chat sample_env (Some day32_transcript))))
              = Some (dt_hour t)
          \<and> month (hd (frame_rows (preprocess_chat sample_env (Some day32_transcript))))
              = Some (month_names ! nat (dt_month t - 1))
          \<and> year (hd (frame_rows (preprocess_chat sample_env (Some day32_transcript))))
              = Some (dt_year t)"
    by blast
  then have "\<exists>t. timestamp (hd (frame_rows (preprocess_chat sample_env (Some day32_transcript)))) = Some t
          \<and> date (hd (frame_rows (preprocess_chat sample_env (Some day32_transcript))))
              = Some (dt_year t, dt_month t, dt_day t)
          \<and> day (hd (frame_rows (preprocess_chat sample_env (Some day32_transcript))))
              = Some (day_names ! nat (dt_weekday t))
          \<and> hour (hd (frame_rows (preprocess_chat sample_env (Some day32_transcript))))
              = Some (dt_hour t)
          \<and> month (hd (frame_rows (preprocess_chat sample_env (Some day32_transcript))))
              = Some (month_names ! nat (dt_month t - 1))
          \<and> year (hd (frame_rows (preprocess_chat sample_env (Some day32_transcript))))
              = Some (dt_year t)"
    by blast
  moreover have "date (hd (frame_rows (preprocess_chat sample_env (Some day32_transcript)))) = Some (2023, 1, 2)
   \<and> day (hd (frame_rows (preprocess_chat sample_env (Some day32_transcript)))) = Some ''Monday''
   \<and> hour (hd (frame_rows (preprocess_chat sample_env (Some day32_transcript)))) = Some 9
   \<and> month (hd (frame_rows (preprocess_chat sample_env (Some day32_transcript)))) = Some ''January''
   \<and> year (hd (frame_rows (preprocess_chat sample_env (Some day32_transcript)))) = Some 2023"
    by (simp add: day32_frame)
  ultimately show ?thesis
    using mem by blast
qed

section \<open>The concrete scenario\<close>

text \<open>
  C5, as the claim states it, is false: on the transcript of the scenario the three
  records are there, but the message of the second one, \<open><Media omitted>\<close>, has 15
  characters, not 14.
\<close>

theorem scenario_length_14_counterexample:
  "\<not> (case preprocess_chat sample_env (Some scenario) of
        Inr (Some [r1, r2, r3]) \<Rightarrow>
          has_media r2 \<and> message_length r2 = 14 \<and> has_url r3 \<and> emojis r3 = [[128512]]
          \<and> emoji_count r3 = 1 \<and> user r3 = str_of ''Alice''
      | _ \<Rightarrow> False)"
  by (simp add: scenario_frame)

text \<open>
  C5, amended: on the transcript of the scenario \<open>preprocess_chat\<close> returns exactly
  three records; the second has \<open>has_media\<close> and a \<open>message_length\<close> of 15; the third
  has \<open>has_url\<close>, the one emoji U+1F600 in \<open>emojis\<close>, an \<open>emoji_count\<close> of 1 and the
  user \<open>Alice\<close>.
\<close>

theorem scenario_records:
  "(case preprocess_chat sample_env (Some scenario) of
      Inr (Some [r1, r2, r3]) \<Rightarrow>
        has_media r2 \<and> message_length r2 = 15 \<and> has_url r3 \<and> emojis r3 = [[128512]]
        \<and> emoji_count r3 = 1 \<and> user r3 = str_of ''Alice''
    | _ \<Rightarrow> False)"
  by (simp add: scenario_frame)

section \<open>Emojis\<close>

lemma comprehension_filter:
  "[f c. c \<leftarrow> m, P c] = map f (filter P m)"
  by (induction m) simp_all

text \<open>
  C7, as the claim states it, is false for a multi-codepoint sequence with a
  constituent that is not a key of the table on its own: the red heart with its
  variation selector, U+2764 U+FE0F, is a key of two code points and contributes one
  entry, not two.
\<close>

theorem heart_sequence_counterexample:
  "(case preprocess_chat sample_env (Some heart_transcript) of
      Inr (Some [r]) \<Rightarrow>
        message r = [10084, 65039] \<and> [10084, 65039] \<in> EMOJI_DATA sample_env
        \<and> emojis r = [[10084]] \<and> length (emojis r) \<noteq> length (message r)
    | _ \<Rightarrow> False)"
proof -
  have "[10084, 65039] \<in> EMOJI_DATA sample_env"
    by (simp add: sample_env_def sample_env_at_def emoji_sample_def)
  then show ?thesis
    by (simp add: heart_frame)
qed

text \<open>
  C7, amended: for every record returned, \<open>emojis\<close> holds, in their order in the
  message, the characters of the message that are keys of the emoji table on their own,
  each as a one-character string (so a multi-codepoint sequence contributes one entry
  for each of its code points that is itself a key, and none for the others), and
  \<open>emoji_count\<close> is the length of \<open>emojis\<close>.
\<close>

theorem emojis_per_character:
  assumes "r \<in> set (frame_rows (preprocess_chat e file_upload))"
  shows "emojis r = map (\<lambda>c. [c]) (filter (\<lambda>c. [c] \<in> EMOJI_DATA e) (message r))
         \<and> emoji_count r = length (emojis r)"
proof -
  from assms obtain t u m where r: "r = add_columns e media_re url_re (Some t, u, m)"
    by (rule row_of_frame)
  show ?thesis
    unfolding r add_columns_fields comprehension_filter by simp
qed

theorem emojis_per_character_witness:
  "hd (frame_rows (preprocess_chat sample_env (Some thumbs_transcript)))
     \<in> set (frame_rows (preprocess_chat sample_env (Some thumbs_transcript)))
   \<and> emojis (hd (frame_rows (preprocess_chat sample_env (Some thumbs_transcript)))) =
       map (\<lambda>c. [c]) (filter (\<lambda>c. [c] \<in> EMOJI_DATA sample_env)
         (message (hd (frame_rows (preprocess_chat sample_env (Some thumbs_transcript))))))
   \<and> emoji_count (hd (frame_rows (preprocess_chat sample_env (Some thumbs_transcript)))) =
       length (emojis (hd (frame_rows (preprocess_chat sample_env (Some thumbs_transcript)))))
   \<and> message (hd (frame_rows (preprocess_chat sample_env (Some thumbs_transcript)))) =
       str_of ''ok '' @ [128077, 127997]
   \<and> emojis (hd (frame_rows (preprocess_chat sample_env (Some thumbs_transcript)))) =
       [[128077], [127997]]"
proof -
  have mem: "hd (frame_rows (preprocess_chat sample_env (Some thumbs_transcript)))
     \<in> set (frame_rows (preprocess_chat sample_env (Some thumbs_transcript)))"
    by (simp add: thumbs_frame)
  have vals: "message (hd (frame_rows (preprocess_chat sample_env (Some thumbs_transcript)))) =
       str_of ''ok '' @ [128077, 127997]
   \<and> emojis (hd (frame_rows (preprocess_chat sample_env (Some thumbs_transcript)))) =
       [[128077], [127997]]"
    by (simp add: thumbs_frame)
  from emojis_per_character [OF mem] mem vals show ?thesis
    by blast
qed

section \<open>Determinism\<close>

text \<open>
  C8, as the claim states it, fails: the result does not depend on the decoded text
  only.  \<open>to_datetime\<close> resolves a year of two digits against the year of the clock, so
  the same upload read in 2026 and read in 2027 gives records that differ: the message
  dated \<open>1/2/76\<close> is of 1976 at the first invocation and of 2076 at the second.
\<close>

theorem clock_year_counterexample:
  "preprocess_chat (sample_env_at 2026) (Some year76_transcript)
     \<noteq> preprocess_chat (sample_env_at 2027) (Some year76_transcript)
   \<and> map year (frame_rows (preprocess_chat (sample_env_at 2026) (Some year76_transcript))) = [Some 1976]
   \<and> map year (frame_rows (preprocess_chat (sample_env_at 2027) (Some year76_transcript))) = [Some 2076]"
  by (simp add: year76_frame_2026 year76_frame_2027)

lemma kept_cong:
  assumes "\<forall>i < length ms. to_datetime e1 (map hd ms) i = to_datetime e2 (map hd ms) i"
  shows "kept e1 ms = kept e2 ms"
  unfolding kept_def using assms by (intro filter_cong) auto

lemma add_columns_cong:
  assumes "unicode_decimal e1 = unicode_decimal e2" and "EMOJI_DATA e1 = EMOJI_DATA e2"
  shows "add_columns e1 m u r = add_columns e2 m u r"
  using assms by (simp add: add_columns_def)

text \<open>
  C8, amended: two invocations of \<open>preprocess_chat\<close>, each with the state of the
  libraries at its time, on uploads that decode to the same text, give the same result,
  records and all, provided the two states have the same tables and \<open>to_datetime\<close>
  converts the timestamp texts that the pattern finds in that text alike at both
  invocations.  Nothing else of the libraries, and nothing of the bytes beyond the
  decoded text, is read.
\<close>

theorem same_conversions_same_records:
  assumes "read_content a = Some content"
    and "read_content b = Some content"
    and "unicode_decimal e1 = unicode_decimal e2"
    and "EMOJI_DATA e1 = EMOJI_DATA e2"
    and "re_findall (unicode_decimal e1) pattern content [DOTALL] = Inr ms"
    and "\<forall>i < length ms. to_datetime e1 (map hd ms) i = to_datetime e2 (map hd ms) i"
  shows "preprocess_chat e1 (Some a) = preprocess_chat e2 (Some b)"
proof -
  from assms(5) have s1: "scan_all (unicode_decimal e1) pattern_re 3 False content = ms"
    by (simp add: findall_pattern)
  with assms(3) have s2: "scan_all (unicode_decimal e2) pattern_re 3 False content = ms"
    by simp
  have "parse_content e1 content = parse_content e2 content"
  proof (cases "ms = []")
    case True
    with s1 s2 show ?thesis
      by (simp add: parse_content_no_match)
  next
    case False
    have "map (\<lambda>i. add_columns e1 media_re url_re
                      (to_datetime e1 (map hd ms) i, ms ! i ! 1, ms ! i ! 2)) (kept e1 ms)
          = map (\<lambda>i. add_columns e2 media_re url_re
                      (to_datetime e2 (map hd ms) i, ms ! i ! 1, ms ! i ! 2)) (kept e2 ms)"
      unfolding kept_cong [OF assms(6)]
      using assms(6) by (intro map_cong) (auto simp: kept_def add_columns_cong [OF assms(3,4)])
    with parse_content_rows [OF s1 False] parse_content_rows [OF s2 False] show ?thesis
      by simp
  qed
  with assms(1,2) show ?thesis
    by (simp add: preprocess_chat_def)
qed

text \<open>
  The same message as Latin-1 bytes, read in 2026, and as UTF-8 bytes, read in 2027: the
  two clocks give different conversions for a year 76, but the same for the year 23 of
  this message, and the results are equal.
\<close>

theorem same_conversions_same_records_witness:
  "read_content cafe_latin1 = read_content cafe_utf8
   \<and> cafe_latin1 \<noteq> cafe_utf8
   \<and> to_datetime (sample_env_at 2026) [str_of ''1/2/76, 9:05 AM''] 0
       \<noteq> to_datetime (sample_env_at 2027) [str_of ''1/2/76, 9:05 AM''] 0
   \<and> preprocess_chat (sample_env_at 2026) (Some cafe_latin1)
       = preprocess_chat (sample_env_at 2027) (Some cafe_utf8)
   \<and> map message (frame_rows (preprocess_chat (sample_env_at 2026) (Some cafe_latin1)))
       = [str_of ''caf'' @ [233]]"
proof -
  let ?ms = "[[str_of ''1/2/23, 9:05 AM'', str_of ''A'', str_of ''caf'' @ [233]]]"
  have ne: "cafe_latin1 \<noteq> cafe_utf8"
    by (simp add: cafe_latin1_def cafe_utf8_def)
  have d: "to_datetime (sample_env_at 2026) [str_of ''1/2/76, 9:05 AM''] 0
       \<noteq> to_datetime (sample_env_at 2027) [str_of ''1/2/76, 9:05 AM''] 0"
    by code_simp
  have m: "re_findall (unicode_decimal (sample_env_at 2026)) pattern
             (str_of ''1/2/23, 9:05 AM - A: caf'' @ [233]) [DOTALL] = Inr ?ms"
    using cafe_matches by (simp add: sample_env_at_def)
  have t: "to_datetime (sample_env_at 2026) (map hd ?ms) 0 = to_datetime (sample_env_at 2027) (map hd ?ms) 0"
    by code_simp
  have c: "\<forall>i < length ?ms. to_datetime (sample_env_at 2026) (map hd ?ms) i
             = to_datetime (sample_env_at 2027) (map hd ?ms) i"
    using t by simp
  have eq: "preprocess_chat (sample_env_at 2026) (Some cafe_latin1)
       = preprocess_chat (sample_env_at 2027) (Some cafe_utf8)"
    by (rule same_conversions_same_records [OF cafe_content(1) cafe_content(2) _ _ m c])
       (simp_all add: sample_env_at_def)
  have rc: "read_content cafe_latin1 = read_content cafe_utf8"
    by (simp add: cafe_content)
  have r: "map message (frame_rows (preprocess_chat (sample_env_at 2026) (Some cafe_latin1)))
       = [str_of ''caf'' @ [233]]"
    by (simp add: cafe_frame_2026)
  from rc ne d eq r show ?thesis
    by blast
qed

section \<open>Media placeholders\<close>

lemma rmatch_Empty: "rmatch D Empty = (\<lambda>st. [st])"
  by (rule ext) simp

lemma rmatch_seq_of_Cons:
  "rmatch D (seq_of (r # rs)) st = concat (map (rmatch D (seq_of rs)) (rmatch D r st))"
  by (cases rs) (simp_all add: rmatch_Empty)

lemma rmatch_atoms:
  "rmatch D (seq_of (map Atom as)) (c, s) =
     (if list_all2 (atom_matches D) as (take (length as) s) then [(c, drop (length as) s)] else [])"
proof (induction as arbitrary: s)
  case Nil
  then show ?case by simp
next
  case (Cons a as)
  show ?case
  proof (cases s)
    case Nil
    then show ?thesis
      by (simp add: rmatch_seq_of_Cons del: seq_of.simps)
  next
    case (Cons x xs)
    with Cons.IH [of xs] show ?thesis
      by (simp add: rmatch_seq_of_Cons del: seq_of.simps)
  qed
qed

lemma ignorecase_lower: "ignorecase_eq (ascii_lower p) c = ignorecase_eq p c"
  by (simp add: ignorecase_eq_def ascii_lower_def)

lemma rmatch_atoms_map:
  "rmatch D (seq_of (map (\<lambda>x. Atom (f x)) xs)) (c, s) =
     (if list_all2 (\<lambda>x. atom_matches D (f x)) xs (take (length xs) s)
      then [(c, drop (length xs) s)] else [])"
  using rmatch_atoms [of D "map f xs" c s] by (simp add: list_all2_map1 comp_def)

lemma phrase_matches:
  "rmatch D (phrase_re p) (c, s) \<noteq> [] \<longleftrightarrow>
     list_all2 ignorecase_eq (str_of p) (take (length p) s)"
proof -
  have "atom_matches D (LitIgn (ascii_lower n)) = ignorecase_eq n" for n
    by (rule ext) (simp add: ignorecase_lower)
  then show ?thesis
    by (simp add: phrase_re_def rmatch_atoms_map str_of_def list_all2_map1)
qed

lemma rmatch_alt_of:
  "rs \<noteq> [] \<Longrightarrow> rmatch D (alt_of rs) st = concat (map (\<lambda>r. rmatch D r st) rs)"
  by (induction rs rule: alt_of.induct) simp_all

lemma media_matches:
  "rmatch D media_re (c, s) \<noteq> [] \<longleftrightarrow>
     (\<exists>p \<in> set media_phrases. list_all2 ignorecase_eq (str_of p) (take (length p) s))"
proof -
  have "rmatch D media_re (c, s) = concat (map (\<lambda>p. rmatch D (phrase_re p) (c, s)) media_phrases)"
    by (simp add: media_re_def rmatch_alt_of media_phrases_def)
  then show ?thesis
    using phrase_matches [of D _ c s] by auto
qed

lemma scan_any_iff:
  "scan_any D r s \<longleftrightarrow> (\<exists>i \<le> length s. rmatch D r ([], drop i s) \<noteq> [])"
proof (induction s)
  case Nil
  then show ?case by simp
next
  case (Cons x xs)
  show ?case
  proof
    assume "scan_any D r (x # xs)"
    then consider "rmatch D r ([], x # xs) \<noteq> []" | "scan_any D r xs" by auto
    then show "\<exists>i \<le> length (x # xs). rmatch D r ([], drop i (x # xs)) \<noteq> []"
    proof cases
      case 1
      then show ?thesis by (intro exI [of _ 0]) simp
    next
      case 2
      with Cons.IH obtain i where "i \<le> length xs" "rmatch D r ([], drop i xs) \<noteq> []" by blast
      then show ?thesis by (intro exI [of _ "Suc i"]) simp
    qed
  next
    assume "\<exists>i \<le> length (x # xs). rmatch D r ([], drop i (x # xs)) \<noteq> []"
    then obtain i where i: "i \<le> length (x # xs)" "rmatch D r ([], drop i (x # xs)) \<noteq> []" by blast
    show "scan_any D r (x # xs)"
    proof (cases i)
      case 0
      with i show ?thesis by simp
    next
      case (Suc j)
      with i Cons.IH show ?thesis by auto
    qed
  qed
qed

lemma occurs_iff:
  "occurs_ignoring_case p s \<longleftrightarrow>
     (\<exists>i \<le> length s. list_all2 ignorecase_eq (str_of p) (take (length p) (drop i s)))"
proof -
  have "set [0..<Suc (length s)] = {i. i \<le> length s}"
    by auto
  then show ?thesis
    by (simp add: occurs_ignoring_case_def list_ex_iff del: upt_Suc)
qed

text \<open>
  C9: for every record returned, \<open>has_media\<close> is true exactly when one of the four
  placeholder phrases occurs in the message, ignoring case, at some position: text
  before and after the phrase does not matter.
\<close>

theorem has_media_iff_phrase_occurs:
  assumes "r \<in> set (frame_rows (preprocess_chat e file_upload))"
  shows "has_media r \<longleftrightarrow> (\<exists>p \<in> set media_phrases. occurs_ignoring_case p (message r))"
proof -
  from assms obtain t u m where r: "r = add_columns e media_re url_re (Some t, u, m)"
    by (rule row_of_frame)
  have "has_media r \<longleftrightarrow> scan_any (unicode_decimal e) media_re m"
    by (simp add: r add_columns_fields)
  also have "\<dots> \<longleftrightarrow> (\<exists>p \<in> set media_phrases. occurs_ignoring_case p m)"
    unfolding scan_any_iff media_matches occurs_iff by blast
  finally show ?thesis
    by (simp add: r add_columns_fields)
qed


theorem has_media_iff_phrase_occurs_witness:
  "hd (frame_rows (preprocess_chat sample_env (Some media_transcript)))
     \<in> set (frame_rows (preprocess_chat sample_env (Some media_transcript)))
   \<and> message (hd (frame_rows (preprocess_chat sample_env (Some media_transcript)))) =
       str_of ''see IMAGE Omitted here''
   \<and> has_media (hd (frame_rows (preprocess_chat sample_env (Some media_transcript))))
   \<and> (\<exists>p \<in> set media_phrases.
         occurs_ignoring_case p
           (message (hd (frame_rows (preprocess_chat sample_env (Some media_transcript))))))"
proof -
  have mem: "hd (frame_rows (preprocess_chat sample_env (Some media_transcript)))
     \<in> set (frame_rows (preprocess_chat sample_env (Some media_transcript)))"
    by (simp add: media_frame)
  have "has_media (hd (frame_rows (preprocess_chat sample_env (Some media_transcript))))"
    by (simp add: media_frame)
  with has_media_iff_phrase_occurs [OF mem] mem show ?thesis
    by (simp add: media_frame)
qed

section \<open>Messages of several lines\<close>




























end
